theory Spec2Isabelle
  imports Main "HOL-Library.Word"
begin

section \<open>The ttbin dump programs\<close>

text \<open>
  The repository holds two C programs that dump a TomTom \<^verbatim>\<open>.ttbin\<close> activity file as
  text: the older one (\<^verbatim>\<open>ttbin.c\<close>, called \<^emph>\<open>legacy\<close> here) and the newer one (called
  \<^emph>\<open>current\<close>). Both read the file front to back with \<^verbatim>\<open>fread\<close>: one tag byte, then
  the packed structure of that tag.

  Conventions of the embedding:
  \<^item> the file is a list of bytes; the \<^verbatim>\<open>FILE*\<close> is a record of the unread bytes, the
    position reported by \<^verbatim>\<open>ftell\<close> and the end-of-file indicator read by \<^verbatim>\<open>feof\<close>;
  \<^item> the structures are packed and the host is little-endian, so a field is the
    little-endian value of the payload bytes at its offset;
  \<^item> \<^verbatim>\<open>int\<close> has 32 bits; an unsigned 32-bit argument printed with \<^verbatim>\<open>%i\<close> is read as
    two's complement; \<^verbatim>\<open>uint8_t\<close> and \<^verbatim>\<open>uint16_t\<close> arguments are promoted to \<^verbatim>\<open>int\<close>;
    the position of the stream fits the \<^verbatim>\<open>long\<close> that \<^verbatim>\<open>ftell\<close> returns;
  \<^item> standard output is a list of pieces: text that the model renders (literal text and
    the integer conversions), and conversions it records without rendering (the strings
    made by \<^verbatim>\<open>strftime\<close> and the floating-point conversions), each with the argument
    it prints;
  \<^item> the variable arguments of \<^verbatim>\<open>printf\<close> are passed as on x86-64 (System V): the
    \<^verbatim>\<open>double\<close> arguments in vector registers, the integer and pointer arguments in
    general registers, so a conversion takes the next argument of its own class;
  \<^item> \<^verbatim>\<open>return 0\<close> from \<^verbatim>\<open>main\<close> is the status \<open>Done\<close>, \<^verbatim>\<open>exit(-1)\<close> is \<open>Fatal\<close>;
    what \<^verbatim>\<open>perror\<close> writes goes to standard error and is not part of the output.
\<close>

type_synonym byte = "8 word"

subsection \<open>The stream\<close>

record FILE =
  rest :: "byte list"
  pos :: nat
  eof :: bool

definition fopen :: "byte list \<Rightarrow> FILE" where
  "fopen contents = \<lparr>rest = contents, pos = 0, eof = False\<rparr>"

text \<open>\<^verbatim>\<open>fread(data, 1, n, f)\<close>: the bytes read (at most \<open>n\<close>) and the stream after the call.\<close>

definition fread :: "nat \<Rightarrow> FILE \<Rightarrow> byte list \<times> FILE" where
  "fread n f =
     (take n (rest f),
      \<lparr>rest = drop n (rest f),
       pos = pos f + min n (length (rest f)),
       eof = (eof f \<or> length (rest f) < n)\<rparr>)"

definition ftell :: "FILE \<Rightarrow> int" where
  "ftell f = int (pos f)"

definition feof :: "FILE \<Rightarrow> bool" where
  "feof f = eof f"

datatype status = Done | Fatal | Overrun

text \<open>
  \<open>Overrun\<close> stands for an access outside the 256-byte buffer of \<^verbatim>\<open>ReadAndDump\<close>
  (undefined behaviour in C); no exit code belongs to it.
\<close>

definition exit_code :: "status \<Rightarrow> int option" where
  "exit_code s = (case s of Done \<Rightarrow> Some 0 | Fatal \<Rightarrow> Some (- 1) | Overrun \<Rightarrow> None)"

text \<open>\<^verbatim>\<open>ReadStruct\<close>: \<open>None\<close> is the \<^verbatim>\<open>exit(-1)\<close> of a short read.\<close>

definition ReadStruct :: "FILE \<Rightarrow> nat \<Rightarrow> (byte list \<times> FILE) option" where
  "ReadStruct f sz =
     (case fread sz f of (data, f') \<Rightarrow>
        if length data \<noteq> sz then None else Some (data, f'))"

subsection \<open>Little-endian fields of a packed structure\<close>

definition le16 :: "byte list \<Rightarrow> nat \<Rightarrow> 16 word" where
  "le16 d i = word_of_nat (unat (d ! i) + 256 * unat (d ! (i + 1)))"

definition le32 :: "byte list \<Rightarrow> nat \<Rightarrow> 32 word" where
  "le32 d i = word_of_nat (unat (d ! i) + 256 * unat (d ! (i + 1))
                + 65536 * unat (d ! (i + 2)) + 16777216 * unat (d ! (i + 3)))"

subsection \<open>Output\<close>

datatype zone = GMT | Local

datatype dconst = D_1e_7 | D_0_01 | D_0_1

text \<open>
  A \<^verbatim>\<open>double\<close> argument: an integer times a \<^verbatim>\<open>double\<close> literal, or a \<^verbatim>\<open>float\<close> field
  (its 32 bits) promoted to \<^verbatim>\<open>double\<close>.
\<close>

datatype dbl = Scaled int dconst | OfFloat "32 word"

datatype arg = ATime zone "32 word" | ADbl dbl | AInt int

datatype piece = Txt string | Conv string arg

abbreviation NL :: string where
  "NL \<equiv> [CHR 0x0A]"

definition digit_char :: "nat \<Rightarrow> char" where
  "digit_char n = ''0123456789ABCDEF'' ! n"

fun dec_nat :: "nat \<Rightarrow> string" where
  "dec_nat n = (if n < 10 then [digit_char n] else dec_nat (n div 10) @ [digit_char (n mod 10)])"

fun hex_nat :: "nat \<Rightarrow> string" where
  "hex_nat n = (if n < 16 then [digit_char n] else hex_nat (n div 16) @ [digit_char (n mod 16)])"

declare dec_nat.simps [simp del]
declare hex_nat.simps [simp del]

definition zero_pad :: "nat \<Rightarrow> string \<Rightarrow> string" where
  "zero_pad w s = replicate (w - length s) (CHR ''0'') @ s"

text \<open>\<^verbatim>\<open>%i\<close> and \<^verbatim>\<open>%li\<close> of a signed value; \<^verbatim>\<open>%02X\<close> and \<^verbatim>\<open>%04X\<close> of a non-negative one.\<close>

definition fmt_i :: "int \<Rightarrow> string" where
  "fmt_i i = (if i < 0 then CHR ''-'' # dec_nat (nat (- i)) else dec_nat (nat i))"

definition fmt_02X :: "nat \<Rightarrow> string" where
  "fmt_02X n = zero_pad 2 (hex_nat n)"

definition fmt_04X :: "nat \<Rightarrow> string" where
  "fmt_04X n = zero_pad 4 (hex_nat n)"

definition GetActivityType :: "byte \<Rightarrow> string" where
  "GetActivityType activity =
     (if activity = 0 then ''Run''
      else if activity = 1 then ''Cycle''
      else if activity = 2 then ''Swim''
      else if activity = 7 then ''Treadmill''
      else ''Type '' @ fmt_i (uint activity))"

definition GetGMTTime :: "32 word \<Rightarrow> piece" where
  "GetGMTTime seconds = Conv ''%s'' (ATime GMT seconds)"

definition GetLocalTime :: "32 word \<Rightarrow> piece" where
  "GetLocalTime seconds = Conv ''%s'' (ATime Local seconds)"

text \<open>The loop of \<^verbatim>\<open>Dump\<close> and \<^verbatim>\<open>ReadAndDump\<close>, from index \<open>i\<close> on.\<close>

fun dump_from :: "nat \<Rightarrow> byte list \<Rightarrow> piece list" where
  "dump_from i [] = []"
| "dump_from i (b # bs) =
     Txt ('' '' @ fmt_02X (unat b)) # (if i mod 32 = 31 then [Txt NL] else []) @ dump_from (Suc i) bs"

definition Dump :: "byte list \<Rightarrow> piece list" where
  "Dump data = dump_from 0 data @ (if length data mod 32 \<noteq> 0 then [Txt NL] else [])"

text \<open>
  \<^verbatim>\<open>ReadAndDump(size, f)\<close> (here \<open>sz\<close>) reads into \<^verbatim>\<open>uint8_t buffer[256]\<close>. \<open>Inl\<close> is the way the
  call ends the program: \<open>Fatal\<close> after a short read, \<open>Overrun\<close> when \<open>sz\<close> is not a
  count the buffer can hold.
\<close>

definition ReadAndDump :: "int \<Rightarrow> FILE \<Rightarrow> status + (piece list \<times> FILE)" where
  "ReadAndDump sz f =
     (if sz < 0 \<or> 256 < sz then Inl Overrun
      else case fread (nat sz) f of (buffer, f') \<Rightarrow>
        if length buffer \<noteq> nat sz then Inl Fatal else Inr (Dump buffer, f'))"

subsection \<open>The packed structures\<close>

text \<open>
  Each structure is read with \<^verbatim>\<open>ReadStruct(f, &x, sizeof(x))\<close>; \<open>as_X d\<close> gives the
  fields of \<open>X\<close> overlaid on the payload \<open>d\<close>. The sizes are the sums of the field
  widths (\<^verbatim>\<open>__attribute__((__packed__))\<close>).
\<close>

definition sizeof_Header_legacy :: nat where
  "sizeof_Header_legacy = 2 + 4 + 2 + 4 + 105"

definition sizeof_Header :: nat where
  "sizeof_Header = 1 + 4 + 2 + 4 + 105"

definition sizeof_RecordLengths :: nat where
  "sizeof_RecordLengths = 69"

definition sizeof_GPS :: nat where
  "sizeof_GPS = 4 + 4 + 2 + 2 + 2 + 4 + 4 + 2 + 2 + 1"

definition sizeof_GPS_current :: nat where
  "sizeof_GPS_current = 4 + 4 + 2 + 2 + 4 + 2 + 4 + 4 + 1"

definition sizeof_HeartRate :: nat where
  "sizeof_HeartRate = 2 + 4"

definition sizeof_HeartRate_current :: nat where
  "sizeof_HeartRate_current = 1 + 1 + 4"

definition sizeof_Lap :: nat where
  "sizeof_Lap = 1 + 1 + 4"

definition sizeof_UnknownAndTime :: nat where
  "sizeof_UnknownAndTime = 2 + 4"

definition sizeof_Summary :: nat where
  "sizeof_Summary = 4 + 4 + 4 + 4"

definition sizeof_Treadmill :: nat where
  "sizeof_Treadmill = 4 + 4 + 4 + 4 + 2"

definition sizeof_R23 :: nat where
  "sizeof_R23 = 2 + 2 + 1 + 4 + 4 + 2 + 4"

definition sizeof_Swim :: nat where
  "sizeof_Swim = 4 + 14 + 4"

lemmas sizeof_defs =
  sizeof_Header_legacy_def sizeof_Header_def sizeof_RecordLengths_def sizeof_GPS_def
  sizeof_GPS_current_def sizeof_HeartRate_def sizeof_HeartRate_current_def sizeof_Lap_def
  sizeof_UnknownAndTime_def sizeof_Summary_def sizeof_Treadmill_def sizeof_R23_def
  sizeof_Swim_def

record Header =
  file_format :: byte
  version :: "byte list"
  unkown1 :: "16 word"
  timestamp :: "32 word"
  unknown2 :: "byte list"

definition as_Header :: "byte list \<Rightarrow> Header" where
  "as_Header d = \<lparr>file_format = d ! 0, version = take 4 (drop 1 d), unkown1 = le16 d 5,
     timestamp = le32 d 7, unknown2 = take 105 (drop 11 d)\<rparr>"

record GPS_legacy =
  latitude :: "32 word"
  longitude :: "32 word"
  u1 :: "16 word"
  speed :: "16 word"
  u2 :: "16 word"
  time :: "32 word"
  calories :: "32 word"
  u3 :: "16 word"
  distance :: "16 word"
  u4 :: byte

definition as_GPS_legacy :: "byte list \<Rightarrow> GPS_legacy" where
  "as_GPS_legacy d = \<lparr>latitude = le32 d 0, longitude = le32 d 4, u1 = le16 d 8,
     speed = le16 d 10, u2 = le16 d 12, time = le32 d 14, calories = le32 d 18,
     u3 = le16 d 22, distance = le16 d 24, u4 = d ! 26\<rparr>"

record GPS =
  gps_latitude :: "32 word"
  gps_longitude :: "32 word"
  gps_heading :: "16 word"
  gps_speed :: "16 word"
  gps_time :: "32 word"
  gps_calories :: "16 word"
  gps_inc_distance :: "32 word"
  gps_cum_distance :: "32 word"
  gps_cycles :: byte

definition as_GPS :: "byte list \<Rightarrow> GPS" where
  "as_GPS d = \<lparr>gps_latitude = le32 d 0, gps_longitude = le32 d 4, gps_heading = le16 d 8,
     gps_speed = le16 d 10, gps_time = le32 d 12, gps_calories = le16 d 16,
     gps_inc_distance = le32 d 18, gps_cum_distance = le32 d 22, gps_cycles = d ! 26\<rparr>"

record HeartRate_legacy =
  heart_rate16 :: "16 word"
  heart_time16 :: "32 word"

definition as_HeartRate_legacy :: "byte list \<Rightarrow> HeartRate_legacy" where
  "as_HeartRate_legacy d = \<lparr>heart_rate16 = le16 d 0, heart_time16 = le32 d 2\<rparr>"

record HeartRate =
  heart_rate :: byte
  heart_u1 :: byte
  heart_time :: "32 word"

definition as_HeartRate :: "byte list \<Rightarrow> HeartRate" where
  "as_HeartRate d = \<lparr>heart_rate = d ! 0, heart_u1 = d ! 1, heart_time = le32 d 2\<rparr>"

record Lap =
  lap :: byte
  activity :: byte
  lap_time :: "32 word"

definition as_Lap :: "byte list \<Rightarrow> Lap" where
  "as_Lap d = \<lparr>lap = d ! 0, activity = d ! 1, lap_time = le32 d 2\<rparr>"

record UnknownAndTime =
  r35_u :: "byte list"
  r35_time :: "32 word"

definition as_UnknownAndTime :: "byte list \<Rightarrow> UnknownAndTime" where
  "as_UnknownAndTime d = \<lparr>r35_u = take 2 d, r35_time = le32 d 2\<rparr>"

record Summary =
  activity_type :: "32 word"
  summary_distance :: "32 word"
  duration :: "32 word"
  summary_calories :: "32 word"

definition as_Summary :: "byte list \<Rightarrow> Summary" where
  "as_Summary d = \<lparr>activity_type = le32 d 0, summary_distance = le32 d 4,
     duration = le32 d 8, summary_calories = le32 d 12\<rparr>"

record Treadmill =
  treadmill_time :: "32 word"
  treadmill_distance :: "32 word"
  treadmill_calories :: "32 word"
  steps :: "32 word"
  treadmill_u2 :: "16 word"

definition as_Treadmill :: "byte list \<Rightarrow> Treadmill" where
  "as_Treadmill d = \<lparr>treadmill_time = le32 d 0, treadmill_distance = le32 d 4,
     treadmill_calories = le32 d 8, steps = le32 d 12, treadmill_u2 = le16 d 16\<rparr>"

record R23 =
  r23_u1 :: "16 word"
  r23_u2 :: "16 word"
  r23_u3 :: byte
  r23_u4 :: "byte list"
  r23_u5 :: "byte list"
  r23_u6 :: "16 word"
  r23_u7 :: "byte list"

definition as_R23 :: "byte list \<Rightarrow> R23" where
  "as_R23 d = \<lparr>r23_u1 = le16 d 0, r23_u2 = le16 d 2, r23_u3 = d ! 4,
     r23_u4 = take 4 (drop 5 d), r23_u5 = take 4 (drop 9 d), r23_u6 = le16 d 13,
     r23_u7 = take 4 (drop 15 d)\<rparr>"

record Swim =
  swim_time :: "32 word"
  swim_u :: "byte list"
  swim_calories :: "32 word"

definition as_Swim :: "byte list \<Rightarrow> Swim" where
  "as_Swim d = \<lparr>swim_time = le32 d 0, swim_u = take 14 (drop 4 d), swim_calories = le32 d 18\<rparr>"

subsection \<open>The \<^verbatim>\<open>printf\<close> calls of \<^verbatim>\<open>main\<close>\<close>

text \<open>
  One definition for each call, the format string cut at its conversions. A \<open>Conv\<close>
  piece pairs a conversion with the argument at its position in the call.
\<close>

definition printf_Header :: "Header \<Rightarrow> piece list" where
  "printf_Header h =
     [Txt ''['', GetGMTTime (timestamp h), Txt ''] Header: file format '',
      Txt (fmt_i (uint (file_format h))), Txt '', watch version ('',
      Txt (fmt_i (uint (version h ! 0))), Txt '','', Txt (fmt_i (uint (version h ! 1))), Txt '','',
      Txt (fmt_i (uint (version h ! 2))), Txt '','', Txt (fmt_i (uint (version h ! 3))),
      Txt ('')'' @ NL)]"

definition printf_Lap_legacy :: "Lap \<Rightarrow> piece list" where
  "printf_Lap_legacy l =
     [Txt ''['', GetLocalTime (lap_time l), Txt ''] Lap: '', Txt (fmt_i (uint (lap l))),
      Txt '' activity: '', Txt (GetActivityType (activity l)), Txt NL]"

definition printf_Lap :: "Lap \<Rightarrow> piece list" where
  "printf_Lap l =
     [Txt ''['', GetGMTTime (lap_time l), Txt ''] Lap: '', Txt (fmt_i (uint (lap l))),
      Txt '' activity: '', Txt (GetActivityType (activity l)), Txt NL]"

definition printf_GPS_legacy :: "GPS_legacy \<Rightarrow> piece list" where
  "printf_GPS_legacy g =
     [Txt ''['', GetLocalTime (time g), Txt ''] GPS: Lat: '',
      Conv ''%f'' (ADbl (Scaled (sint (latitude g)) D_1e_7)), Txt '', Long: '',
      Conv ''%f'' (ADbl (Scaled (sint (longitude g)) D_1e_7)), Txt '', Speed: '',
      Conv ''%.2f'' (ADbl (Scaled (uint (speed g)) D_0_01)), Txt '' m/s,Cal: '',
      Txt (fmt_i (sint (calories g))), Txt '', Distance: '',
      Conv ''%.1f'' (ADbl (Scaled (uint (distance g)) D_0_1)), Txt '' m   '',
      Txt (fmt_04X (unat (u1 g))), Txt '' '', Txt (fmt_04X (unat (u2 g))), Txt '' '',
      Txt (fmt_04X (unat (u3 g))), Txt '' '', Txt (fmt_02X (unat (u4 g))), Txt NL]"

text \<open>
  The call of the current program, with its arguments in the order of the source:
  \<^verbatim>\<open>GetLocalTime(gps.time), gps.latitude * 1e-7, gps.longitude * 1e-7, gps.speed * 0.01,
  gps.calories, gps.cycles, gps.cum_distance, gps.inc_distance, gps.heading * .01\<close>.
  After \<^verbatim>\<open>gps.calories\<close> the order is not that of the conversions
  (\<^verbatim>\<open>Distance: %f m (+ %f m), Cycles: %i\<close>). All arguments travel in registers (four
  general, six vector), and \<^verbatim>\<open>printf\<close> takes for each conversion the next argument of
  the class of the conversion: \<^verbatim>\<open>%s\<close> and \<^verbatim>\<open>%i\<close> from the general registers, \<^verbatim>\<open>%f\<close> and
  \<^verbatim>\<open>%.2f\<close> from the vector registers. So \<^verbatim>\<open>Distance\<close> is printed from
  \<^verbatim>\<open>gps.cum_distance\<close>, the increment from \<^verbatim>\<open>gps.inc_distance\<close> and \<^verbatim>\<open>Cycles\<close> from
  \<^verbatim>\<open>gps.cycles\<close>. The degree sign of the format is the two bytes of its UTF-8 encoding.
\<close>

definition is_double :: "arg \<Rightarrow> bool" where
  "is_double a = (case a of ADbl x \<Rightarrow> True | _ \<Rightarrow> False)"

definition conv_i :: "arg \<Rightarrow> piece" where
  "conv_i a = (case a of AInt i \<Rightarrow> Txt (fmt_i i) | _ \<Rightarrow> Conv ''%i'' a)"

definition printf_GPS_args :: "GPS \<Rightarrow> arg list" where
  "printf_GPS_args g =
     [ATime Local (gps_time g),
      ADbl (Scaled (sint (gps_latitude g)) D_1e_7),
      ADbl (Scaled (sint (gps_longitude g)) D_1e_7),
      ADbl (Scaled (uint (gps_speed g)) D_0_01),
      AInt (uint (gps_calories g)),
      AInt (uint (gps_cycles g)),
      ADbl (OfFloat (gps_cum_distance g)),
      ADbl (OfFloat (gps_inc_distance g)),
      ADbl (Scaled (uint (gps_heading g)) D_0_01)]"

definition printf_GPS :: "GPS \<Rightarrow> piece list" where
  "printf_GPS g =
     (let general = filter (\<lambda>a. \<not> is_double a) (printf_GPS_args g);
          vector = filter is_double (printf_GPS_args g)
      in [Txt ''['', Conv ''%s'' (general ! 0), Txt ''] GPS: Lat: '',
          Conv ''%f'' (vector ! 0), Txt '', Long: '',
          Conv ''%f'' (vector ! 1), Txt '', Speed: '',
          Conv ''%.2f'' (vector ! 2), Txt '' m/s, Cal: '',
          conv_i (general ! 1), Txt '', Distance: '',
          Conv ''%f'' (vector ! 3), Txt '' m (+ '',
          Conv ''%f'' (vector ! 4), Txt '' m), Cycles: '',
          conv_i (general ! 2), Txt ''   Heading '',
          Conv ''%.2f'' (vector ! 5),
          Txt ([CHR 0xC2, CHR 0xB0] @ NL)])"

definition printf_R23 :: "R23 \<Rightarrow> piece list" where
  "printf_R23 r =
     [Txt ''Tag 0x23: '', Txt (fmt_04X (unat (r23_u1 r))), Txt ''  '',
      Txt (fmt_04X (unat (r23_u2 r))), Txt ''  '', Txt (fmt_02X (unat (r23_u3 r))), Txt NL]"

definition printf_HeartRate_legacy :: "HeartRate_legacy \<Rightarrow> piece list" where
  "printf_HeartRate_legacy h =
     [Txt ''['', GetGMTTime (heart_time16 h), Txt ''] Heart BPM: '',
      Txt (fmt_i (uint (heart_rate16 h))), Txt NL]"

definition printf_HeartRate :: "HeartRate \<Rightarrow> piece list" where
  "printf_HeartRate h =
     [Txt ''['', GetGMTTime (heart_time h), Txt ''] Heart BPM: '',
      Txt (fmt_i (uint (heart_rate h))), Txt NL]"

text \<open>
  \<^verbatim>\<open>GetActivityType\<close> takes a \<^verbatim>\<open>uint8_t\<close>: the 32-bit \<^verbatim>\<open>activity_type\<close> is converted on
  the call. \<^verbatim>\<open>summary.duration + 1\<close> is an unsigned 32-bit sum.
\<close>

definition printf_Summary :: "Summary \<Rightarrow> piece list" where
  "printf_Summary s =
     [Txt (''Summary:'' @ NL @ ''  Activity type: ''),
      Txt (GetActivityType (ucast (activity_type s))), Txt (NL @ ''  Distance ''),
      Txt (fmt_i (sint (summary_distance s))), Txt (''m'' @ NL @ ''  Duration: ''),
      Txt (fmt_i (sint (duration s + 1))), Txt ('' s'' @ NL @ ''  Calories: ''),
      Txt (fmt_i (sint (summary_calories s))), Txt NL]"

definition printf_Treadmill :: "Treadmill \<Rightarrow> piece list" where
  "printf_Treadmill t =
     [Txt ''['', GetGMTTime (treadmill_time t), Txt ''] Treadmill: Distance: '',
      Conv ''%.2f'' (ADbl (OfFloat (treadmill_distance t))), Txt '' m  Calories: '',
      Txt (fmt_i (sint (treadmill_calories t))), Txt ''  Steps: '',
      Txt (fmt_i (sint (steps t))), Txt NL]"

definition printf_Swim :: "Swim \<Rightarrow> piece list" where
  "printf_Swim s =
     [Txt ''Swim: '', GetGMTTime (swim_time s), Txt '' Calories: '',
      Txt (fmt_i (sint (swim_calories s))), Txt NL]
     @ map (\<lambda>b. Txt ('' '' @ fmt_02X (unat b))) (swim_u s) @ [Txt NL]"

definition printf_r35 :: "UnknownAndTime \<Rightarrow> piece list" where
  "printf_r35 r =
     [Txt ''Tag 0x35: '', Txt (fmt_02X (unat (r35_u r ! 0))), Txt '' '',
      Txt (fmt_02X (unat (r35_u r ! 1))), Txt ''  '', GetLocalTime (r35_time r), Txt NL]"

text \<open>The \<^verbatim>\<open>default\<close> branch: \<open>f\<close> is the stream after the tag byte was read.\<close>

definition printf_Unknow :: "byte \<Rightarrow> FILE \<Rightarrow> piece list" where
  "printf_Unknow tag f =
     [Txt ''Unknow tag: '', Txt (fmt_02X (unat tag)), Txt '' at '',
      Txt (fmt_i (ftell f - 1)), Txt NL]"

subsection \<open>One pass of the loop body\<close>

text \<open>
  The \<^verbatim>\<open>switch\<close> on the tag, with \<open>f\<close> the stream after the tag byte: either the
  loop goes on (\<open>Continue\<close>, with what was printed and the stream after the record) or
  the program ends there (\<open>Stop\<close>, with what was printed before the end).
\<close>

datatype step = Continue "piece list" FILE | Stop status "piece list"

definition switch_legacy :: "byte \<Rightarrow> FILE \<Rightarrow> step" where
  "switch_legacy tag f =
     (if tag = 0x21 then
        (case ReadStruct f sizeof_Lap of None \<Rightarrow> Stop Fatal []
         | Some (d, f') \<Rightarrow> Continue (printf_Lap_legacy (as_Lap d)) f')
      else if tag = 0x22 then
        (case ReadStruct f sizeof_GPS of None \<Rightarrow> Stop Fatal [Txt NL]
         | Some (d, f') \<Rightarrow>
             Continue ([Txt NL]
               @ (if time (as_GPS_legacy d) \<noteq> 0xffffffff then printf_GPS_legacy (as_GPS_legacy d)
                  else [Txt (''No GPS lock'' @ NL)])
               @ [Txt NL]) f')
      else if tag = 0x23 then
        (case ReadStruct f sizeof_R23 of None \<Rightarrow> Stop Fatal []
         | Some (d, f') \<Rightarrow> Continue (printf_R23 (as_R23 d) @ Dump d) f')
      else if tag = 0x25 then
        (case ReadStruct f sizeof_HeartRate of None \<Rightarrow> Stop Fatal []
         | Some (d, f') \<Rightarrow> Continue (printf_HeartRate_legacy (as_HeartRate_legacy d)) f')
      else if tag = 0x26 then
        (case ReadAndDump 6 f of Inl s \<Rightarrow> Stop s [Txt ''Tag 0x26: '']
         | Inr (out, f') \<Rightarrow> Continue (Txt ''Tag 0x26: '' # out) f')
      else if tag = 0x27 then
        (case ReadStruct f sizeof_Summary of None \<Rightarrow> Stop Fatal []
         | Some (d, f') \<Rightarrow> Continue (printf_Summary (as_Summary d)) f')
      else if tag = 0x30 then
        (case ReadAndDump 2 f of Inl s \<Rightarrow> Stop s [Txt ''Tag 0x30: '']
         | Inr (out, f') \<Rightarrow> Continue (Txt ''Tag 0x30: '' # out) f')
      else if tag = 0x32 then
        (case ReadStruct f sizeof_Treadmill of None \<Rightarrow> Stop Fatal []
         | Some (d, f') \<Rightarrow> Continue (printf_Treadmill (as_Treadmill d)) f')
      else if tag = 0x34 then
        (case ReadStruct f sizeof_Swim of None \<Rightarrow> Stop Fatal []
         | Some (d, f') \<Rightarrow> Continue (printf_Swim (as_Swim d)) f')
      else if tag = 0x35 then
        (case ReadStruct f sizeof_UnknownAndTime of None \<Rightarrow> Stop Fatal []
         | Some (d, f') \<Rightarrow> Continue (printf_r35 (as_UnknownAndTime d)) f')
      else if tag = 0x37 then
        (case ReadAndDump 1 f of Inl s \<Rightarrow> Stop s [Txt ''Tag 0x37: '']
         | Inr (out, f') \<Rightarrow> Continue (Txt ''Tag 0x37: '' # out) f')
      else Continue (printf_Unknow tag f) f)"

definition switch_current :: "byte \<Rightarrow> FILE \<Rightarrow> step" where
  "switch_current tag f =
     (if tag = 0x20 then
        (case ReadStruct f sizeof_Header of None \<Rightarrow> Stop Fatal []
         | Some (d, f') \<Rightarrow> Continue (printf_Header (as_Header d)) f')
      else if tag = 0x16 then
        (case ReadStruct f sizeof_RecordLengths of None \<Rightarrow> Stop Fatal []
         | Some (d, f') \<Rightarrow> Continue [Txt (''Record lengths (ignored)'' @ NL)] f')
      else if tag = 0x21 then
        (case ReadStruct f sizeof_Lap of None \<Rightarrow> Stop Fatal []
         | Some (d, f') \<Rightarrow> Continue (printf_Lap (as_Lap d)) f')
      else if tag = 0x22 then
        (case ReadStruct f sizeof_GPS_current of None \<Rightarrow> Stop Fatal [Txt NL]
         | Some (d, f') \<Rightarrow>
             Continue ([Txt NL]
               @ (if gps_time (as_GPS d) \<noteq> 0xffffffff then printf_GPS (as_GPS d)
                  else [Txt (''No GPS lock'' @ NL)])
               @ [Txt NL]) f')
      else if tag = 0x23 then
        (case ReadStruct f sizeof_R23 of None \<Rightarrow> Stop Fatal []
         | Some (d, f') \<Rightarrow> Continue (printf_R23 (as_R23 d) @ Dump d) f')
      else if tag = 0x25 then
        (case ReadStruct f sizeof_HeartRate_current of None \<Rightarrow> Stop Fatal []
         | Some (d, f') \<Rightarrow> Continue (printf_HeartRate (as_HeartRate d)) f')
      else if tag = 0x26 then
        (case ReadAndDump 6 f of Inl s \<Rightarrow> Stop s [Txt ''Tag 0x26: '']
         | Inr (out, f') \<Rightarrow> Continue (Txt ''Tag 0x26: '' # out) f')
      else if tag = 0x27 then
        (case ReadStruct f sizeof_Summary of None \<Rightarrow> Stop Fatal []
         | Some (d, f') \<Rightarrow> Continue (printf_Summary (as_Summary d)) f')
      else if tag = 0x30 then
        (case ReadAndDump 2 f of Inl s \<Rightarrow> Stop s [Txt ''Tag 0x30: '']
         | Inr (out, f') \<Rightarrow> Continue (Txt ''Tag 0x30: '' # out) f')
      else if tag = 0x32 then
        (case ReadStruct f sizeof_Treadmill of None \<Rightarrow> Stop Fatal []
         | Some (d, f') \<Rightarrow> Continue (printf_Treadmill (as_Treadmill d)) f')
      else if tag = 0x34 then
        (case ReadStruct f sizeof_Swim of None \<Rightarrow> Stop Fatal []
         | Some (d, f') \<Rightarrow> Continue (printf_Swim (as_Swim d)) f')
      else if tag = 0x35 then
        (case ReadStruct f sizeof_UnknownAndTime of None \<Rightarrow> Stop Fatal []
         | Some (d, f') \<Rightarrow> Continue (printf_r35 (as_UnknownAndTime d)) f')
      else if tag = 0x37 then
        (case ReadAndDump 1 f of Inl s \<Rightarrow> Stop s [Txt ''Tag 0x37: '']
         | Inr (out, f') \<Rightarrow> Continue (Txt ''Tag 0x37: '' # out) f')
      else Continue (printf_Unknow tag f) f)"

datatype variant = Legacy | Current

definition switch :: "variant \<Rightarrow> byte \<Rightarrow> FILE \<Rightarrow> step" where
  "switch v = (case v of Legacy \<Rightarrow> switch_legacy | Current \<Rightarrow> switch_current)"

subsection \<open>The loop and \<^verbatim>\<open>main\<close>\<close>

text \<open>
  The loop ends because every pass that goes on has taken the tag byte off the stream
  and never puts a byte back.
\<close>

lemma ReadStruct_None: "ReadStruct f n = None \<longleftrightarrow> length (rest f) < n"
  by (auto simp: ReadStruct_def fread_def)

lemma ReadStruct_Some:
  "ReadStruct f n = Some (d, f') \<longleftrightarrow>
     n \<le> length (rest f) \<and> d = take n (rest f)
     \<and> f' = \<lparr>rest = drop n (rest f), pos = pos f + n, eof = eof f\<rparr>"
  by (auto simp: ReadStruct_def fread_def min_def)

lemma ReadAndDump_Inr:
  "ReadAndDump n f = Inr (out, f') \<longleftrightarrow>
     0 \<le> n \<and> n \<le> 256 \<and> nat n \<le> length (rest f) \<and> out = Dump (take (nat n) (rest f))
     \<and> f' = \<lparr>rest = drop (nat n) (rest f), pos = pos f + nat n, eof = eof f\<rparr>"
  by (auto simp: ReadAndDump_def fread_def min_def)

lemma ReadAndDump_Inl:
  "ReadAndDump n f = Inl s \<longleftrightarrow>
     (if n < 0 \<or> 256 < n then s = Overrun else s = Fatal \<and> length (rest f) < nat n)"
  by (auto simp: ReadAndDump_def fread_def)

lemma switch_legacy_Continue:
  assumes "switch_legacy tag f = Continue out f'"
  shows "length (rest f') \<le> length (rest f) \<and> eof f' = eof f"
  using assms unfolding switch_legacy_def
  by (auto split: if_splits option.splits sum.splits simp: ReadStruct_Some ReadAndDump_Inr)

lemma switch_current_Continue:
  assumes "switch_current tag f = Continue out f'"
  shows "length (rest f') \<le> length (rest f) \<and> eof f' = eof f"
  using assms unfolding switch_current_def
  by (auto split: if_splits option.splits sum.splits simp: ReadStruct_Some ReadAndDump_Inr)

lemma switch_Continue:
  "switch v tag f = Continue out f' \<Longrightarrow> length (rest f') \<le> length (rest f) \<and> eof f' = eof f"
  by (cases v) (simp_all add: switch_def switch_legacy_Continue switch_current_Continue)

lemma pump_measure:
  assumes "(buffer, f1) = fread 1 f" and "\<not> length buffer < 1"
    and "switch v (buffer ! 0) f1 = Continue out f2"
  shows "length (rest f2) < length (rest f)"
proof -
  from assms(1,2) have "length (rest f1) < length (rest f)"
    by (cases "rest f") (auto simp: fread_def)
  moreover from assms(3) have "length (rest f2) \<le> length (rest f1)"
    by (simp add: switch_Continue)
  ultimately show ?thesis by simp
qed

text \<open>
  \<^verbatim>\<open>while(!feof(f)) { if (fread(buffer, 1, 1, f) < 1) return 0; ... }\<close> and the
  \<^verbatim>\<open>return 0\<close> after it: the status of the program and all it printed from \<open>f\<close> on.
\<close>

function pump :: "variant \<Rightarrow> FILE \<Rightarrow> status \<times> piece list" where
  "pump v f =
     (if feof f then (Done, [])
      else case fread 1 f of (buffer, f1) \<Rightarrow>
        if length buffer < 1 then (Done, [])
        else (case switch v (buffer ! 0) f1 of
                Stop s out \<Rightarrow> (s, out)
              | Continue out f2 \<Rightarrow> (case pump v f2 of (s, out') \<Rightarrow> (s, out @ out'))))"
  by pat_completeness auto
termination
  by (relation "measure (\<lambda>(v, f). length (rest f))") (auto intro: pump_measure)

declare pump.simps [simp del]

text \<open>
  \<^verbatim>\<open>main\<close> from the point where the file is open. The legacy program reads the header
  before the loop; the current program starts the loop at once.
\<close>

definition main_legacy :: "byte list \<Rightarrow> status \<times> piece list" where
  "main_legacy contents =
     (case ReadStruct (fopen contents) sizeof_Header_legacy of
        None \<Rightarrow> (Fatal, [])
      | Some (header, f) \<Rightarrow> pump Legacy f)"

definition main_current :: "byte list \<Rightarrow> status \<times> piece list" where
  "main_current contents = pump Current (fopen contents)"

subsection \<open>Tables read off the two \<^verbatim>\<open>switch\<close> statements\<close>

text \<open>
  \<open>payload_size v tag\<close> is the number of bytes the branch of \<open>tag\<close> reads in program
  \<open>v\<close>, \<open>None\<close> for a tag that falls to \<^verbatim>\<open>default\<close>; \<open>prompt tag\<close> is what the branch
  prints before it reads. The lemmas \<open>switch_unknown\<close>, \<open>switch_short\<close> and
  \<open>switch_complete\<close> below tie both tables to the \<^verbatim>\<open>switch\<close>.
\<close>

definition payload_size :: "variant \<Rightarrow> byte \<Rightarrow> nat option" where
  "payload_size v tag =
     (if tag = 0x21 then Some sizeof_Lap
      else if tag = 0x22 then Some (case v of Legacy \<Rightarrow> sizeof_GPS | Current \<Rightarrow> sizeof_GPS_current)
      else if tag = 0x23 then Some sizeof_R23
      else if tag = 0x25 then
        Some (case v of Legacy \<Rightarrow> sizeof_HeartRate | Current \<Rightarrow> sizeof_HeartRate_current)
      else if tag = 0x26 then Some 6
      else if tag = 0x27 then Some sizeof_Summary
      else if tag = 0x30 then Some 2
      else if tag = 0x32 then Some sizeof_Treadmill
      else if tag = 0x34 then Some sizeof_Swim
      else if tag = 0x35 then Some sizeof_UnknownAndTime
      else if tag = 0x37 then Some 1
      else if v = Current \<and> tag = 0x20 then Some sizeof_Header
      else if v = Current \<and> tag = 0x16 then Some sizeof_RecordLengths
      else None)"

definition prompt :: "byte \<Rightarrow> piece list" where
  "prompt tag =
     (if tag = 0x22 then [Txt NL]
      else if tag = 0x26 then [Txt ''Tag 0x26: '']
      else if tag = 0x30 then [Txt ''Tag 0x30: '']
      else if tag = 0x37 then [Txt ''Tag 0x37: '']
      else [])"

text \<open>
  What a pass of the loop body printed, and what the branch of \<open>tag\<close> prints when the
  stream holds exactly the payload \<open>d\<close>.
\<close>

definition step_out :: "step \<Rightarrow> piece list" where
  "step_out st = (case st of Continue out f \<Rightarrow> out | Stop s out \<Rightarrow> out)"

definition record_out :: "variant \<Rightarrow> byte \<Rightarrow> byte list \<Rightarrow> piece list" where
  "record_out v tag d = step_out (switch v tag \<lparr>rest = d, pos = 0, eof = False\<rparr>)"

text \<open>
  The table of activity names as the specification gives it, on the natural numbers:
  0 is Run, 1 is Cycle, 2 is Swim, 7 is Treadmill, any other code \<open>N\<close> is \<^verbatim>\<open>Type N\<close>.
\<close>

definition activity_name :: "nat \<Rightarrow> string" where
  "activity_name n =
     (if n = 0 then ''Run'' else if n = 1 then ''Cycle'' else if n = 2 then ''Swim''
      else if n = 7 then ''Treadmill'' else ''Type '' @ dec_nat n)"

text \<open>The time zones of the timestamps in a piece of output, in the order printed.\<close>

fun zones :: "piece list \<Rightarrow> zone list" where
  "zones [] = []"
| "zones (Conv c (ATime z t) # ps) = z # zones ps"
| "zones (p # ps) = zones ps"

text \<open>
  The selection rule of the specification, to be compared with the programs: the dialect
  is chosen from the format marker of the header, and a marker that is not the legacy
  one selects the current dialect. The legacy marker is 05 (the legacy header is commented
  \<^verbatim>\<open>Seems to always be 20 05\<close>: the tag byte 0x20, then the marker), the current one 07
  (\<^verbatim>\<open>Currently 07, have also seen 05\<close>).
\<close>

definition spec_dialect :: "byte \<Rightarrow> variant" where
  "spec_dialect marker = (if marker = 0x05 then Legacy else Current)"

text \<open>The stream at offset \<open>K\<close> of the file, with no read failed so far.\<close>

definition at_offset :: "byte list \<Rightarrow> nat \<Rightarrow> FILE" where
  "at_offset contents K = \<lparr>rest = drop K contents, pos = K, eof = False\<rparr>"

definition main :: "variant \<Rightarrow> byte list \<Rightarrow> status \<times> piece list" where
  "main v = (case v of Legacy \<Rightarrow> main_legacy | Current \<Rightarrow> main_current)"

text \<open>
  The offsets at which the pass reads a tag byte: the start of the loop, and the offset
  after each whole record and after each unknown tag byte.
\<close>

inductive tag_boundary :: "variant \<Rightarrow> byte list \<Rightarrow> nat \<Rightarrow> bool"
  for v :: variant and contents :: "byte list" where
  start_legacy:
    "v = Legacy \<Longrightarrow> sizeof_Header_legacy \<le> length contents
     \<Longrightarrow> tag_boundary v contents sizeof_Header_legacy"
| start_current:
    "v = Current \<Longrightarrow> tag_boundary v contents 0"
| after_record:
    "tag_boundary v contents K \<Longrightarrow> K < length contents
     \<Longrightarrow> payload_size v (contents ! K) = Some n \<Longrightarrow> K + 1 + n \<le> length contents
     \<Longrightarrow> tag_boundary v contents (K + 1 + n)"
| after_unknown:
    "tag_boundary v contents K \<Longrightarrow> K < length contents
     \<Longrightarrow> payload_size v (contents ! K) = None
     \<Longrightarrow> tag_boundary v contents (K + 1)"

code_pred tag_boundary .

section \<open>Properties\<close>

subsection \<open>Unfolding the loop\<close>

lemma pump_feof: "eof f \<Longrightarrow> pump v f = (Done, [])"
  by (simp add: pump.simps feof_def)

lemma pump_Nil: "rest f = [] \<Longrightarrow> pump v f = (Done, [])"
  by (simp add: pump.simps fread_def)

lemma pump_Cons:
  assumes "\<not> eof f" and "rest f = tag # r"
  shows "pump v f =
     (case switch v tag \<lparr>rest = r, pos = pos f + 1, eof = False\<rparr> of
        Stop s out \<Rightarrow> (s, out)
      | Continue out f2 \<Rightarrow> (fst (pump v f2), out @ snd (pump v f2)))"
  using assms
  by (subst pump.simps) (simp add: feof_def fread_def split: step.splits prod.splits)

lemma ReadAndDump_short:
  "0 \<le> n \<Longrightarrow> n \<le> 256 \<Longrightarrow> length (rest f) < nat n \<Longrightarrow> ReadAndDump n f = Inl Fatal"
  by (simp add: ReadAndDump_Inl)

lemma switch_unknown:
  "payload_size v tag = None \<Longrightarrow> switch v tag f = Continue (printf_Unknow tag f) f"
  by (cases v)
     (simp_all add: payload_size_def switch_def switch_legacy_def switch_current_def
       split: if_splits)

lemma switch_short:
  assumes "payload_size v tag = Some n" and "length (rest f) < n"
  shows "switch v tag f = Stop Fatal (prompt tag)"
  using assms
  by (cases v)
     (auto simp add: payload_size_def prompt_def switch_def switch_legacy_def switch_current_def
       sizeof_defs ReadStruct_None[THEN iffD2] ReadAndDump_short
       split: if_splits)

lemma ReadStruct_complete:
  "n \<le> length (rest f) \<Longrightarrow>
   ReadStruct f n = Some (take n (rest f), \<lparr>rest = drop n (rest f), pos = pos f + n, eof = eof f\<rparr>)"
  by (simp add: ReadStruct_def fread_def min_def)

lemma ReadAndDump_complete:
  "0 \<le> n \<Longrightarrow> n \<le> 256 \<Longrightarrow> nat n \<le> length (rest f) \<Longrightarrow>
   ReadAndDump n f = Inr (Dump (take (nat n) (rest f)),
     \<lparr>rest = drop (nat n) (rest f), pos = pos f + nat n, eof = eof f\<rparr>)"
  by (simp add: ReadAndDump_def fread_def min_def)

lemma payload_size_legacy_cases:
  assumes "payload_size Legacy tag = Some n"
  shows "(tag = 0x21 \<and> n = 6) \<or> (tag = 0x22 \<and> n = 27) \<or> (tag = 0x23 \<and> n = 19)
       \<or> (tag = 0x25 \<and> n = 6) \<or> (tag = 0x26 \<and> n = 6) \<or> (tag = 0x27 \<and> n = 16)
       \<or> (tag = 0x30 \<and> n = 2) \<or> (tag = 0x32 \<and> n = 18) \<or> (tag = 0x34 \<and> n = 22)
       \<or> (tag = 0x35 \<and> n = 6) \<or> (tag = 0x37 \<and> n = 1)"
  using assms by (simp add: payload_size_def sizeof_defs split: if_splits)

lemma payload_size_current_cases:
  assumes "payload_size Current tag = Some n"
  shows "(tag = 0x21 \<and> n = 6) \<or> (tag = 0x22 \<and> n = 27) \<or> (tag = 0x23 \<and> n = 19)
       \<or> (tag = 0x25 \<and> n = 6) \<or> (tag = 0x26 \<and> n = 6) \<or> (tag = 0x27 \<and> n = 16)
       \<or> (tag = 0x30 \<and> n = 2) \<or> (tag = 0x32 \<and> n = 18) \<or> (tag = 0x34 \<and> n = 22)
       \<or> (tag = 0x35 \<and> n = 6) \<or> (tag = 0x37 \<and> n = 1)
       \<or> (tag = 0x20 \<and> n = 116) \<or> (tag = 0x16 \<and> n = 69)"
  using assms by (simp add: payload_size_def sizeof_defs split: if_splits)

lemma switch_legacy_complete:
  assumes "payload_size Legacy tag = Some n" and "n \<le> length (rest f)"
  shows "switch_legacy tag f = Continue (record_out Legacy tag (take n (rest f)))
           \<lparr>rest = drop n (rest f), pos = pos f + n, eof = eof f\<rparr>"
  using payload_size_legacy_cases[OF assms(1)] assms(2)
  by (elim disjE conjE)
     (simp_all add: record_out_def step_out_def switch_def switch_legacy_def sizeof_defs
        ReadStruct_complete ReadAndDump_complete)

lemma switch_current_complete:
  assumes "payload_size Current tag = Some n" and "n \<le> length (rest f)"
  shows "switch_current tag f = Continue (record_out Current tag (take n (rest f)))
           \<lparr>rest = drop n (rest f), pos = pos f + n, eof = eof f\<rparr>"
  using payload_size_current_cases[OF assms(1)] assms(2)
  by (elim disjE conjE)
     (simp_all add: record_out_def step_out_def switch_def switch_current_def sizeof_defs
        ReadStruct_complete ReadAndDump_complete)

lemma switch_complete:
  assumes "payload_size v tag = Some n" and "n \<le> length (rest f)"
  shows "switch v tag f = Continue (record_out v tag (take n (rest f)))
           \<lparr>rest = drop n (rest f), pos = pos f + n, eof = eof f\<rparr>"
  using assms
  by (cases v) (simp_all add: switch_def switch_legacy_complete switch_current_complete)

lemma pump_step:
  "pump v \<lparr>rest = tag # r, pos = n, eof = False\<rparr> =
     (case switch v tag \<lparr>rest = r, pos = n + 1, eof = False\<rparr> of
        Stop s out \<Rightarrow> (s, out)
      | Continue out f2 \<Rightarrow> (fst (pump v f2), out @ snd (pump v f2)))"
  by (simp add: pump_Cons)

lemma pump_done: "pump v \<lparr>rest = [], pos = n, eof = e\<rparr> = (Done, [])"
  by (simp add: pump_Nil)

subsection \<open>The pass from one tag boundary to the next\<close>

lemma at_offset_Cons:
  "K < length c \<Longrightarrow> at_offset c K = \<lparr>rest = c ! K # drop (Suc K) c, pos = K, eof = False\<rparr>"
  by (simp add: at_offset_def Cons_nth_drop_Suc)

lemma pump_at_end: "length c \<le> K \<Longrightarrow> pump v (at_offset c K) = (Done, [])"
  by (simp add: at_offset_def pump_done)

lemma pump_at_unknown:
  assumes "K < length c" and "payload_size v (c ! K) = None"
  shows "pump v (at_offset c K) =
     (fst (pump v (at_offset c (K + 1))),
      printf_Unknow (c ! K) (at_offset c (K + 1)) @ snd (pump v (at_offset c (K + 1))))"
  using assms
  by (simp add: at_offset_Cons pump_step switch_unknown) (simp add: at_offset_def)

lemma pump_at_short:
  assumes "K < length c" and "payload_size v (c ! K) = Some n" and "length c < K + 1 + n"
  shows "pump v (at_offset c K) = (Fatal, prompt (c ! K))"
  using assms by (simp add: at_offset_Cons pump_step switch_short)

lemma pump_at_complete:
  assumes "K < length c" and "payload_size v (c ! K) = Some n" and "K + 1 + n \<le> length c"
  shows "pump v (at_offset c K) =
     (fst (pump v (at_offset c (K + 1 + n))),
      record_out v (c ! K) (take n (drop (K + 1) c)) @ snd (pump v (at_offset c (K + 1 + n))))"
proof -
  let ?f = "\<lparr>rest = drop (Suc K) c, pos = K + 1, eof = False\<rparr>"
  have "n \<le> length (rest ?f)"
    using assms by simp
  from switch_complete[OF assms(2) this] have
    "switch v (c ! K) ?f = Continue (record_out v (c ! K) (take n (drop (K + 1) c)))
       \<lparr>rest = drop n (rest ?f), pos = pos ?f + n, eof = eof ?f\<rparr>"
    by simp
  moreover have "\<lparr>rest = drop n (rest ?f), pos = pos ?f + n, eof = eof ?f\<rparr>
      = at_offset c (K + 1 + n)"
    by (simp add: at_offset_def add.commute)
  ultimately show ?thesis
    using assms(1) by (simp add: at_offset_Cons pump_step)
qed

lemma main_start:
  "main Current c = pump Current (at_offset c 0)"
  "sizeof_Header_legacy \<le> length c \<Longrightarrow> main Legacy c = pump Legacy (at_offset c sizeof_Header_legacy)"
  "length c < sizeof_Header_legacy \<Longrightarrow> main Legacy c = (Fatal, [])"
  by (simp_all add: main_def main_current_def main_legacy_def fopen_def at_offset_def
      ReadStruct_def fread_def min_def)

lemma take_prefix_nth:
  assumes "take m xs = take m ys" and "i < m"
  shows "xs ! i = ys ! i"
  by (metis assms nth_take)

lemma take_prefix_mono:
  assumes "take m xs = take m ys" and "k \<le> m"
  shows "take k xs = take k ys"
  by (metis assms min.absorb1 take_take)

lemma take_prefix_slice:
  assumes "take (k + n) xs = take (k + n) ys"
  shows "take n (drop k xs) = take n (drop k ys)"
  by (metis assms add.commute drop_take diff_add_inverse2)

lemma boundary_prefix:
  assumes "tag_boundary v c K" and "take K c' = take K c" and "K \<le> length c'"
  shows "tag_boundary v c' K \<and>
     (\<exists>out. main v c = (fst (pump v (at_offset c K)), out @ snd (pump v (at_offset c K)))
         \<and> main v c' = (fst (pump v (at_offset c' K)), out @ snd (pump v (at_offset c' K))))"
  using assms
proof (induction arbitrary: c' rule: tag_boundary.induct)
  case start_legacy
  let ?H = sizeof_Header_legacy
  have "tag_boundary v c' ?H"
    using start_legacy by (auto intro: tag_boundary.start_legacy)
  moreover have "main v c = (fst (pump v (at_offset c ?H)), [] @ snd (pump v (at_offset c ?H)))"
    using start_legacy by (simp add: main_start)
  moreover have "main v c' = (fst (pump v (at_offset c' ?H)), [] @ snd (pump v (at_offset c' ?H)))"
    using start_legacy by (simp add: main_start)
  ultimately show ?case by blast
next
  case start_current
  have "tag_boundary v c' 0"
    using start_current by (auto intro: tag_boundary.start_current)
  moreover have "main v c = (fst (pump v (at_offset c 0)), [] @ snd (pump v (at_offset c 0)))"
    using start_current by (simp add: main_start)
  moreover have "main v c' = (fst (pump v (at_offset c' 0)), [] @ snd (pump v (at_offset c' 0)))"
    using start_current by (simp add: main_start)
  ultimately show ?case by blast
next
  case (after_record K n)
  let ?K' = "K + 1 + n"
  from after_record.prems have pre: "take K c' = take K c" and len: "K \<le> length c'"
    by (auto intro: take_prefix_mono)
  from after_record.IH[OF pre len] obtain out where
    b: "tag_boundary v c' K"
    and m: "main v c = (fst (pump v (at_offset c K)), out @ snd (pump v (at_offset c K)))"
    and m': "main v c' = (fst (pump v (at_offset c' K)), out @ snd (pump v (at_offset c' K)))"
    by blast
  from after_record.prems have tag: "c' ! K = c ! K"
    by (auto intro: take_prefix_nth)
  from after_record.prems have slice: "take n (drop (K + 1) c') = take n (drop (K + 1) c)"
    by (auto intro: take_prefix_slice)
  from after_record.prems have K': "K < length c'" by simp
  have p: "pump v (at_offset c K) = (fst (pump v (at_offset c ?K')),
      record_out v (c ! K) (take n (drop (K + 1) c)) @ snd (pump v (at_offset c ?K')))"
    using after_record.hyps by (simp add: pump_at_complete)
  have p': "pump v (at_offset c' K) = (fst (pump v (at_offset c' ?K')),
      record_out v (c ! K) (take n (drop (K + 1) c)) @ snd (pump v (at_offset c' ?K')))"
    using after_record.hyps(3) after_record.prems(2) K' tag slice
      pump_at_complete[of K c' v n] by simp
  have "tag_boundary v c' ?K'"
    using b K' after_record.hyps(3) after_record.prems(2) tag
      tag_boundary.after_record[of v c' K n] by simp
  moreover have "main v c = (fst (pump v (at_offset c ?K')),
      (out @ record_out v (c ! K) (take n (drop (K + 1) c))) @ snd (pump v (at_offset c ?K')))"
    using m p by simp
  moreover have "main v c' = (fst (pump v (at_offset c' ?K')),
      (out @ record_out v (c ! K) (take n (drop (K + 1) c))) @ snd (pump v (at_offset c' ?K')))"
    using m' p' by simp
  ultimately show ?case by blast
next
  case (after_unknown K)
  from after_unknown.prems have pre: "take K c' = take K c" and len: "K \<le> length c'"
    by (auto intro: take_prefix_mono)
  from after_unknown.IH[OF pre len] obtain out where
    b: "tag_boundary v c' K"
    and m: "main v c = (fst (pump v (at_offset c K)), out @ snd (pump v (at_offset c K)))"
    and m': "main v c' = (fst (pump v (at_offset c' K)), out @ snd (pump v (at_offset c' K)))"
    by blast
  from after_unknown.prems have tag: "c' ! K = c ! K"
    by (auto intro: take_prefix_nth)
  from after_unknown.prems have K': "K < length c'" by simp
  have u: "printf_Unknow (c ! K) (at_offset c' (K + 1)) = printf_Unknow (c ! K) (at_offset c (K + 1))"
    by (simp add: printf_Unknow_def ftell_def at_offset_def)
  have p: "pump v (at_offset c K) = (fst (pump v (at_offset c (K + 1))),
      printf_Unknow (c ! K) (at_offset c (K + 1)) @ snd (pump v (at_offset c (K + 1))))"
    using after_unknown.hyps by (simp add: pump_at_unknown)
  have p': "pump v (at_offset c' K) = (fst (pump v (at_offset c' (K + 1))),
      printf_Unknow (c ! K) (at_offset c (K + 1)) @ snd (pump v (at_offset c' (K + 1))))"
    using after_unknown.hyps(3) K' tag u pump_at_unknown[of K c' v] by simp
  have "tag_boundary v c' (K + 1)"
    using b K' after_unknown.hyps(3) tag tag_boundary.after_unknown[of v c' K] by simp
  moreover have "main v c = (fst (pump v (at_offset c (K + 1))),
      (out @ printf_Unknow (c ! K) (at_offset c (K + 1))) @ snd (pump v (at_offset c (K + 1))))"
    using m p by simp
  moreover have "main v c' = (fst (pump v (at_offset c' (K + 1))),
      (out @ printf_Unknow (c ! K) (at_offset c (K + 1))) @ snd (pump v (at_offset c' (K + 1))))"
    using m' p' by simp
  ultimately show ?case by blast
qed

subsection \<open>Evaluation on a concrete file\<close>

lemmas run_simps =
  main_def main_legacy_def main_current_def fopen_def at_offset_def pump_step pump_done
  switch_def switch_legacy_def switch_current_def ReadStruct_def ReadAndDump_def fread_def
  sizeof_defs Dump_def ftell_def exit_code_def payload_size_def prompt_def

lemmas fmt_simps =
  fmt_i_def fmt_02X_def fmt_04X_def zero_pad_def dec_nat.simps hex_nat.simps digit_char_def

lemmas record_simps =
  record_out_def step_out_def switch_def switch_legacy_def switch_current_def
  ReadStruct_def ReadAndDump_def fread_def sizeof_defs

lemmas printf_defs =
  printf_Header_def printf_Lap_legacy_def printf_Lap_def printf_GPS_legacy_def printf_GPS_def
  printf_R23_def printf_HeartRate_legacy_def printf_HeartRate_def printf_Summary_def
  printf_Treadmill_def printf_Swim_def printf_r35_def printf_Unknow_def
  printf_GPS_args_def is_double_def conv_i_def Let_def GetGMTTime_def GetLocalTime_def

lemma replicate_2_3: "replicate 2 x = [x, x]" "replicate 3 x = [x, x, x]"
  by (simp_all add: numeral_2_eq_2 numeral_3_eq_3)

subsection \<open>End of the stream\<close>

lemma tag_boundary_le: "tag_boundary v c K \<Longrightarrow> K \<le> length c"
  by (induction rule: tag_boundary.induct) simp_all

lemma boundary_progress:
  assumes "tag_boundary v c K"
  shows "\<exists>K'. tag_boundary v c K' \<and>
           (K' = length c \<or>
            (\<exists>n. K' < length c \<and> payload_size v (c ! K') = Some n \<and> length c < K' + 1 + n))"
  using assms
proof (induction "length c - K" arbitrary: K rule: less_induct)
  case less
  show ?case
  proof (cases "K = length c")
    case True
    with less.prems show ?thesis by blast
  next
    case False
    with less.prems have lt: "K < length c"
      using tag_boundary_le[of v c K] by simp
    show ?thesis
    proof (cases "payload_size v (c ! K)")
      case None
      with less.prems lt have "tag_boundary v c (K + 1)"
        by (rule tag_boundary.after_unknown)
      moreover have "length c - (K + 1) < length c - K"
        using lt by simp
      ultimately show ?thesis
        using less.hyps by blast
    next
      case (Some n)
      show ?thesis
      proof (cases "K + 1 + n \<le> length c")
        case True
        with less.prems lt Some have "tag_boundary v c (K + 1 + n)"
          by (rule tag_boundary.after_record)
        moreover have "length c - (K + 1 + n) < length c - K"
          using lt by simp
        ultimately show ?thesis
          using less.hyps by blast
      next
        case False
        with less.prems lt Some show ?thesis
          by (intro exI[of _ K]) auto
      qed
    qed
  qed
qed

text \<open>
  C3: every file is in one of three cases. It is too short for the header that the
  legacy program reads before its loop; or the pass reaches the end of the file at an
  offset where it reads a tag byte; or it reaches a record of a known tag whose payload
  the file cuts short. In the first case the legacy program ends with \<^verbatim>\<open>exit(-1)\<close> and
  has printed nothing. In the second the program returns 0. In the third, with the
  record at offset \<open>K\<close>, the program ends with \<^verbatim>\<open>exit(-1)\<close>, and all it has printed is what
  a clean pass over the first \<open>K\<close> bytes prints, followed by what the branch prints before
  it reads (nothing, but for the tags 0x22, 0x26, 0x30 and 0x37): no record is decoded
  after the short read.
\<close>

theorem end_of_stream_outcomes:
  "((v = Legacy \<and> length contents < 117)
    \<or> (\<exists>K. tag_boundary v contents K \<and>
          (K = length contents \<or>
           (\<exists>n. K < length contents \<and> payload_size v (contents ! K) = Some n
               \<and> length contents < K + 1 + n))))
   \<and> (length contents < 117 \<longrightarrow>
         main Legacy contents = (Fatal, [])
         \<and> exit_code (fst (main Legacy contents)) = Some (- 1))
   \<and> (tag_boundary v contents K \<longrightarrow>
        (K = length contents \<longrightarrow>
           fst (main v contents) = Done \<and> exit_code (fst (main v contents)) = Some 0)
        \<and> (\<forall>n. K < length contents \<and> payload_size v (contents ! K) = Some n
              \<and> length contents < K + 1 + n \<longrightarrow>
            fst (main v contents) = Fatal \<and> exit_code (fst (main v contents)) = Some (- 1)
            \<and> fst (main v (take K contents)) = Done
            \<and> snd (main v contents) = snd (main v (take K contents)) @ prompt (contents ! K)))"
proof (intro conjI impI allI)
  show "(v = Legacy \<and> length contents < 117)
    \<or> (\<exists>K. tag_boundary v contents K \<and>
          (K = length contents \<or>
           (\<exists>n. K < length contents \<and> payload_size v (contents ! K) = Some n
               \<and> length contents < K + 1 + n)))"
  proof (cases "v = Legacy \<and> length contents < 117")
    case True
    then show ?thesis by blast
  next
    case False
    then have "\<exists>K. tag_boundary v contents K"
      using tag_boundary.start_legacy[of v contents] tag_boundary.start_current[of v contents]
      by (cases v) (auto simp: sizeof_defs)
    then show ?thesis
      using boundary_progress by blast
  qed
next
  assume "length contents < 117"
  then show "main Legacy contents = (Fatal, [])"
    by (simp add: main_start sizeof_defs)
  then show "exit_code (fst (main Legacy contents)) = Some (- 1)"
    by (simp add: exit_code_def)
next
  assume b: "tag_boundary v contents K"
  then have "K \<le> length contents"
    by (rule tag_boundary_le)
  then have "take K (take K contents) = take K contents" and "K \<le> length (take K contents)"
    by simp_all
  from boundary_prefix[OF b this] obtain out where
    m: "main v contents
         = (fst (pump v (at_offset contents K)), out @ snd (pump v (at_offset contents K)))"
    and m': "main v (take K contents)
         = (fst (pump v (at_offset (take K contents) K)),
            out @ snd (pump v (at_offset (take K contents) K)))"
    by blast
  have cut: "main v (take K contents) = (Done, out)"
    using m' by (simp add: pump_at_end)
  {
    assume "K = length contents"
    then show "fst (main v contents) = Done"
      using m by (simp add: pump_at_end)
    then show "exit_code (fst (main v contents)) = Some 0"
      by (simp add: exit_code_def)
  }
  {
    fix n
    assume a: "K < length contents \<and> payload_size v (contents ! K) = Some n
       \<and> length contents < K + 1 + n"
    then have p: "pump v (at_offset contents K) = (Fatal, prompt (contents ! K))"
      by (simp add: pump_at_short)
    show "fst (main v contents) = Fatal"
      using m p by simp
    then show "exit_code (fst (main v contents)) = Some (- 1)"
      by (simp add: exit_code_def)
    show "fst (main v (take K contents)) = Done"
      using cut by simp
    show "snd (main v contents) = snd (main v (take K contents)) @ prompt (contents ! K)"
      using m p cut by simp
  }
qed

theorem end_of_stream_outcomes_witness:
  "main Current [0x37, 7] = (Done, [Txt ''Tag 0x37: '', Txt '' 07'', Txt NL])
   \<and> main Current [0x37, 7, 0x25, 1, 2] = (Fatal, [Txt ''Tag 0x37: '', Txt '' 07'', Txt NL])
   \<and> exit_code (fst (main Current [0x37, 7, 0x25, 1, 2])) = Some (- 1)
   \<and> main Legacy [0x21, 1, 2] = (Fatal, [])
   \<and> exit_code (fst (main Legacy [0x21, 1, 2])) = Some (- 1)
   \<and> fst (main Legacy (replicate 117 0)) = Done
   \<and> exit_code (fst (main Legacy (replicate 117 0))) = Some 0
   \<and> main Legacy (replicate 117 0 @ [0x26, 1, 2]) = (Fatal, [Txt ''Tag 0x26: ''])"
proof -
  have s: "payload_size Current 0x37 = Some 1" "payload_size Current 0x25 = Some 6"
    "payload_size Legacy 0x26 = Some 6"
    by (simp_all add: payload_size_def sizeof_defs)
  have b0: "tag_boundary Current [0x37, 7] 0" "tag_boundary Current [0x37, 7, 0x25, 1, 2] 0"
    by (simp_all add: tag_boundary.start_current)
  have b1: "tag_boundary Current [0x37, 7] 2"
    using tag_boundary.after_record[OF b0(1), of 1] s by (simp add: numeral_2_eq_2)
  have b2: "tag_boundary Current [0x37, 7, 0x25, 1, 2] 2"
    using tag_boundary.after_record[OF b0(2), of 1] s by (simp add: numeral_2_eq_2)
  have l1: "tag_boundary Legacy (replicate 117 0) 117"
    using tag_boundary.start_legacy[of Legacy "replicate 117 0"] by (simp add: sizeof_defs)
  have l2: "tag_boundary Legacy (replicate 117 0 @ [0x26, 1, 2]) 117"
    using tag_boundary.start_legacy[of Legacy "replicate 117 0 @ [0x26, 1, 2]"]
    by (simp add: sizeof_defs)
  have e: "main Current [0x37, 7] = (Done, [Txt ''Tag 0x37: '', Txt '' 07'', Txt NL])"
    by (simp add: run_simps fmt_simps)
  have e': "main Legacy (replicate 117 0) = (Done, [])"
    by (simp add: main_start sizeof_defs pump_at_end)
  from end_of_stream_outcomes[of Current "[0x37, 7, 0x25, 1, 2]" 2] b2 s e
  have "fst (main Current [0x37, 7, 0x25, 1, 2]) = Fatal
      \<and> exit_code (fst (main Current [0x37, 7, 0x25, 1, 2])) = Some (- 1)
      \<and> snd (main Current [0x37, 7, 0x25, 1, 2]) = [Txt ''Tag 0x37: '', Txt '' 07'', Txt NL]"
    by (simp add: prompt_def exit_code_def)
  moreover from end_of_stream_outcomes[of Current "[0x37, 7]" 2] b1
  have "fst (main Current [0x37, 7]) = Done"
    by simp
  moreover from end_of_stream_outcomes[of Legacy "[0x21, 1, 2]" 0]
  have "main Legacy [0x21, 1, 2] = (Fatal, [])
      \<and> exit_code (fst (main Legacy [0x21, 1, 2])) = Some (- 1)"
    by (simp add: exit_code_def)
  moreover from end_of_stream_outcomes[of Legacy "replicate 117 0" 117] l1
  have "fst (main Legacy (replicate 117 0)) = Done
      \<and> exit_code (fst (main Legacy (replicate 117 0))) = Some 0"
    by (simp add: exit_code_def)
  moreover from end_of_stream_outcomes[of Legacy "replicate 117 0 @ [0x26, 1, 2]" 117] l2 s e'
  have "fst (main Legacy (replicate 117 0 @ [0x26, 1, 2])) = Fatal
      \<and> snd (main Legacy (replicate 117 0 @ [0x26, 1, 2])) = [Txt ''Tag 0x26: '']"
    by (simp add: prompt_def nth_append exit_code_def)
  ultimately show ?thesis
    using e by (simp add: prod_eq_iff exit_code_def)
qed

subsection \<open>Unknown tags\<close>



subsection \<open>GPS records without a fix\<close>

lemma record_out_GPS_legacy:
  assumes "length d = 27"
  shows "record_out Legacy 0x22 d =
     [Txt NL] @ (if le32 d 14 = 0xffffffff then [Txt (''No GPS lock'' @ NL)]
                 else printf_GPS_legacy (as_GPS_legacy d)) @ [Txt NL]"
  using assms
  by (simp add: record_out_def step_out_def switch_def switch_legacy_def ReadStruct_def
      fread_def sizeof_defs as_GPS_legacy_def)

lemma record_out_GPS_current:
  assumes "length d = 27"
  shows "record_out Current 0x22 d =
     [Txt NL] @ (if le32 d 12 = 0xffffffff then [Txt (''No GPS lock'' @ NL)]
                 else printf_GPS (as_GPS d)) @ [Txt NL]"
  using assms
  by (simp add: record_out_def step_out_def switch_def switch_current_def ReadStruct_def
      fread_def sizeof_defs as_GPS_def)

lemma payload_size_0x22: "payload_size v 0x22 = Some 27"
  by (cases v) (simp_all add: payload_size_def sizeof_defs)

lemma printf_GPS_legacy_fields:
  "printf_GPS_legacy (as_GPS_legacy d) =
     [Txt ''['', Conv ''%s'' (ATime Local (le32 d 14)), Txt ''] GPS: Lat: '',
                     Conv ''%f'' (ADbl (Scaled (sint (le32 d 0)) D_1e_7)), Txt '', Long: '',
                     Conv ''%f'' (ADbl (Scaled (sint (le32 d 4)) D_1e_7)), Txt '', Speed: '',
                     Conv ''%.2f'' (ADbl (Scaled (uint (le16 d 10)) D_0_01)),
                     Txt '' m/s,Cal: '', Txt (fmt_i (sint (le32 d 18))), Txt '', Distance: '',
                     Conv ''%.1f'' (ADbl (Scaled (uint (le16 d 24)) D_0_1)), Txt '' m   '',
                     Txt (fmt_04X (unat (le16 d 8))), Txt '' '',
                     Txt (fmt_04X (unat (le16 d 12))), Txt '' '',
                     Txt (fmt_04X (unat (le16 d 22))), Txt '' '',
                     Txt (fmt_02X (unat (d ! 26))), Txt NL]"
  by (simp add: printf_GPS_legacy_def as_GPS_legacy_def GetLocalTime_def)

lemma printf_GPS_fields:
  "printf_GPS (as_GPS d) =
     [Txt ''['', Conv ''%s'' (ATime Local (le32 d 12)), Txt ''] GPS: Lat: '',
                     Conv ''%f'' (ADbl (Scaled (sint (le32 d 0)) D_1e_7)), Txt '', Long: '',
                     Conv ''%f'' (ADbl (Scaled (sint (le32 d 4)) D_1e_7)), Txt '', Speed: '',
                     Conv ''%.2f'' (ADbl (Scaled (uint (le16 d 10)) D_0_01)),
                     Txt '' m/s, Cal: '', Txt (fmt_i (uint (le16 d 16))), Txt '', Distance: '',
                     Conv ''%f'' (ADbl (OfFloat (le32 d 22))), Txt '' m (+ '',
                     Conv ''%f'' (ADbl (OfFloat (le32 d 18))), Txt '' m), Cycles: '',
                     Txt (fmt_i (uint (d ! 26))), Txt ''   Heading '',
                     Conv ''%.2f'' (ADbl (Scaled (uint (le16 d 8)) D_0_01)),
                     Txt ([CHR 0xC2, CHR 0xB0] @ NL)]"
  by (simp add: printf_GPS_def printf_GPS_args_def is_double_def conv_i_def as_GPS_def)

text \<open>
  C1: let a GPS record (tag 0x22 and its 27 payload bytes \<open>d\<close>) stand at offset \<open>K\<close>. The
  time field is at offset 14 of the payload in the legacy program and at offset 12 in the
  current one. When it is \<^verbatim>\<open>0xffffffff\<close> the record is printed as an empty line, the line
  \<^verbatim>\<open>No GPS lock\<close> and an empty line, whatever the other 23 bytes are: no other field is
  rendered. Otherwise the line of the \<^verbatim>\<open>printf\<close> call is printed between the two empty
  lines, with every field decoded from the payload: in both programs the time, the
  latitude and longitude (offsets 0 and 4, signed, times \<^verbatim>\<open>1e-7\<close>) and the speed (offset
  10, times \<^verbatim>\<open>0.01\<close>); in the legacy program the calories (offset 18), the distance
  (offset 24, times \<^verbatim>\<open>0.1\<close>) and the four unknown fields (offsets 8, 12, 22 and 26); in
  the current program the calories (offset 16), the cumulated and the incremental
  distance (the floats at offsets 22 and 18), the cycles (offset 26) and the heading
  (offset 8, times \<^verbatim>\<open>.01\<close>). The pass goes on after the record in both cases.
\<close>

theorem gps_no_fix_short_circuit:
  assumes "K < length contents" and "contents ! K = 0x22" and "K + 28 \<le> length contents"
    and "d = take 27 (drop (K + 1) contents)"
  shows "pump Legacy (at_offset contents K) =
           (fst (pump Legacy (at_offset contents (K + 28))),
            [Txt NL]
            @ (if le32 d 14 = 0xffffffff then [Txt (''No GPS lock'' @ NL)]
               else [Txt ''['', Conv ''%s'' (ATime Local (le32 d 14)), Txt ''] GPS: Lat: '',
                     Conv ''%f'' (ADbl (Scaled (sint (le32 d 0)) D_1e_7)), Txt '', Long: '',
                     Conv ''%f'' (ADbl (Scaled (sint (le32 d 4)) D_1e_7)), Txt '', Speed: '',
                     Conv ''%.2f'' (ADbl (Scaled (uint (le16 d 10)) D_0_01)),
                     Txt '' m/s,Cal: '', Txt (fmt_i (sint (le32 d 18))), Txt '', Distance: '',
                     Conv ''%.1f'' (ADbl (Scaled (uint (le16 d 24)) D_0_1)), Txt '' m   '',
                     Txt (fmt_04X (unat (le16 d 8))), Txt '' '',
                     Txt (fmt_04X (unat (le16 d 12))), Txt '' '',
                     Txt (fmt_04X (unat (le16 d 22))), Txt '' '',
                     Txt (fmt_02X (unat (d ! 26))), Txt NL])
            @ [Txt NL] @ snd (pump Legacy (at_offset contents (K + 28))))
       \<and> pump Current (at_offset contents K) =
           (fst (pump Current (at_offset contents (K + 28))),
            [Txt NL]
            @ (if le32 d 12 = 0xffffffff then [Txt (''No GPS lock'' @ NL)]
               else [Txt ''['', Conv ''%s'' (ATime Local (le32 d 12)), Txt ''] GPS: Lat: '',
                     Conv ''%f'' (ADbl (Scaled (sint (le32 d 0)) D_1e_7)), Txt '', Long: '',
                     Conv ''%f'' (ADbl (Scaled (sint (le32 d 4)) D_1e_7)), Txt '', Speed: '',
                     Conv ''%.2f'' (ADbl (Scaled (uint (le16 d 10)) D_0_01)),
                     Txt '' m/s, Cal: '', Txt (fmt_i (uint (le16 d 16))), Txt '', Distance: '',
                     Conv ''%f'' (ADbl (OfFloat (le32 d 22))), Txt '' m (+ '',
                     Conv ''%f'' (ADbl (OfFloat (le32 d 18))), Txt '' m), Cycles: '',
                     Txt (fmt_i (uint (d ! 26))), Txt ''   Heading '',
                     Conv ''%.2f'' (ADbl (Scaled (uint (le16 d 8)) D_0_01)),
                     Txt ([CHR 0xC2, CHR 0xB0] @ NL)])
            @ [Txt NL] @ snd (pump Current (at_offset contents (K + 28))))"
proof -
  have len: "length d = 27"
    using assms by simp
  have "pump v (at_offset contents K) =
     (fst (pump v (at_offset contents (K + 28))),
      record_out v 0x22 d @ snd (pump v (at_offset contents (K + 28))))" for v
    using pump_at_complete[of K contents v 27] assms by (simp add: payload_size_0x22 add.commute)
  then have "pump Legacy (at_offset contents K) =
           (fst (pump Legacy (at_offset contents (K + 28))),
            [Txt NL]
            @ (if le32 d 14 = 0xffffffff then [Txt (''No GPS lock'' @ NL)]
               else [Txt ''['', Conv ''%s'' (ATime Local (le32 d 14)), Txt ''] GPS: Lat: '',
                     Conv ''%f'' (ADbl (Scaled (sint (le32 d 0)) D_1e_7)), Txt '', Long: '',
                     Conv ''%f'' (ADbl (Scaled (sint (le32 d 4)) D_1e_7)), Txt '', Speed: '',
                     Conv ''%.2f'' (ADbl (Scaled (uint (le16 d 10)) D_0_01)),
                     Txt '' m/s,Cal: '', Txt (fmt_i (sint (le32 d 18))), Txt '', Distance: '',
                     Conv ''%.1f'' (ADbl (Scaled (uint (le16 d 24)) D_0_1)), Txt '' m   '',
                     Txt (fmt_04X (unat (le16 d 8))), Txt '' '',
                     Txt (fmt_04X (unat (le16 d 12))), Txt '' '',
                     Txt (fmt_04X (unat (le16 d 22))), Txt '' '',
                     Txt (fmt_02X (unat (d ! 26))), Txt NL])
            @ [Txt NL] @ snd (pump Legacy (at_offset contents (K + 28))))"
    and "pump Current (at_offset contents K) =
           (fst (pump Current (at_offset contents (K + 28))),
            [Txt NL]
            @ (if le32 d 12 = 0xffffffff then [Txt (''No GPS lock'' @ NL)]
               else [Txt ''['', Conv ''%s'' (ATime Local (le32 d 12)), Txt ''] GPS: Lat: '',
                     Conv ''%f'' (ADbl (Scaled (sint (le32 d 0)) D_1e_7)), Txt '', Long: '',
                     Conv ''%f'' (ADbl (Scaled (sint (le32 d 4)) D_1e_7)), Txt '', Speed: '',
                     Conv ''%.2f'' (ADbl (Scaled (uint (le16 d 10)) D_0_01)),
                     Txt '' m/s, Cal: '', Txt (fmt_i (uint (le16 d 16))), Txt '', Distance: '',
                     Conv ''%f'' (ADbl (OfFloat (le32 d 22))), Txt '' m (+ '',
                     Conv ''%f'' (ADbl (OfFloat (le32 d 18))), Txt '' m), Cycles: '',
                     Txt (fmt_i (uint (d ! 26))), Txt ''   Heading '',
                     Conv ''%.2f'' (ADbl (Scaled (uint (le16 d 8)) D_0_01)),
                     Txt ([CHR 0xC2, CHR 0xB0] @ NL)])
            @ [Txt NL] @ snd (pump Current (at_offset contents (K + 28))))"
    by (simp_all only: record_out_GPS_legacy[OF len] record_out_GPS_current[OF len]
        printf_GPS_legacy_fields printf_GPS_fields append_assoc)
  then show ?thesis by blast
qed

theorem gps_no_fix_short_circuit_witness:
  "pump Current (at_offset (0x22 # replicate 27 0xFF) 0)
     = (Done, [Txt NL, Txt (''No GPS lock'' @ NL), Txt NL])
   \<and> pump Legacy (at_offset (0x22 # replicate 27 0xFF) 0)
     = (Done, [Txt NL, Txt (''No GPS lock'' @ NL), Txt NL])
   \<and> pump Legacy (at_offset [0x22, 1,0,0,0, 0xFF,0xFF,0xFF,0xFF, 3,0, 4,0, 5,0, 6,0,0,0, 7,0,0,0, 8,0, 9,0, 10] 0)
     = (Done, [Txt NL, Txt ''['', Conv ''%s'' (ATime Local 6), Txt ''] GPS: Lat: '',
         Conv ''%f'' (ADbl (Scaled 1 D_1e_7)), Txt '', Long: '',
         Conv ''%f'' (ADbl (Scaled (- 1) D_1e_7)), Txt '', Speed: '',
         Conv ''%.2f'' (ADbl (Scaled 4 D_0_01)), Txt '' m/s,Cal: '', Txt ''7'',
         Txt '', Distance: '', Conv ''%.1f'' (ADbl (Scaled 9 D_0_1)), Txt '' m   '',
         Txt ''0003'', Txt '' '', Txt ''0005'', Txt '' '', Txt ''0008'', Txt '' '', Txt ''0A'',
         Txt NL, Txt NL])
   \<and> pump Current (at_offset [0x22, 1,0,0,0, 0xFF,0xFF,0xFF,0xFF, 3,0, 4,0, 5,0,0,0, 6,0, 0,0,0x80,0x3F,
        0,0,0,0x40, 7] 0)
     = (Done, [Txt NL, Txt ''['', Conv ''%s'' (ATime Local 5), Txt ''] GPS: Lat: '',
         Conv ''%f'' (ADbl (Scaled 1 D_1e_7)), Txt '', Long: '',
         Conv ''%f'' (ADbl (Scaled (- 1) D_1e_7)), Txt '', Speed: '',
         Conv ''%.2f'' (ADbl (Scaled 4 D_0_01)), Txt '' m/s, Cal: '', Txt ''6'',
         Txt '', Distance: '', Conv ''%f'' (ADbl (OfFloat 0x40000000)), Txt '' m (+ '',
         Conv ''%f'' (ADbl (OfFloat 0x3F800000)), Txt '' m), Cycles: '', Txt ''7'',
         Txt ''   Heading '', Conv ''%.2f'' (ADbl (Scaled 3 D_0_01)),
         Txt ([CHR 0xC2, CHR 0xB0] @ NL), Txt NL])"
proof -
  let ?c = "0x22 # replicate 27 (0xFF :: byte)"
  let ?l = "[0x22, 1,0,0,0, 0xFF,0xFF,0xFF,0xFF, 3,0, 4,0, 5,0, 6,0,0,0, 7,0,0,0, 8,0, 9,0, 10 :: byte]"
  let ?c' = "[0x22, 1,0,0,0, 0xFF,0xFF,0xFF,0xFF, 3,0, 4,0, 5,0,0,0, 6,0, 0,0,0x80,0x3F,
        0,0,0,0x40, 7 :: byte]"
  have e: "pump v (at_offset ?c (0 + 28)) = (Done, [])"
    "pump v (at_offset ?l (0 + 28)) = (Done, [])"
    "pump v (at_offset ?c' (0 + 28)) = (Done, [])" for v
    by (simp_all add: pump_at_end)
  have s: "le32 (replicate 27 0xFF) 14 = 0xffffffff" "le32 (replicate 27 0xFF) 12 = 0xffffffff"
    by (simp_all add: le32_def)
  from gps_no_fix_short_circuit[of 0 ?c "replicate 27 0xFF"] e s
  have "pump Current (at_offset ?c 0) = (Done, [Txt NL, Txt (''No GPS lock'' @ NL), Txt NL])"
    and "pump Legacy (at_offset ?c 0) = (Done, [Txt NL, Txt (''No GPS lock'' @ NL), Txt NL])"
    by simp_all
  moreover from gps_no_fix_short_circuit[of 0 ?l "tl ?l"] e
  have "pump Legacy (at_offset ?l 0)
     = (Done, [Txt NL, Txt ''['', Conv ''%s'' (ATime Local 6), Txt ''] GPS: Lat: '',
         Conv ''%f'' (ADbl (Scaled 1 D_1e_7)), Txt '', Long: '',
         Conv ''%f'' (ADbl (Scaled (- 1) D_1e_7)), Txt '', Speed: '',
         Conv ''%.2f'' (ADbl (Scaled 4 D_0_01)), Txt '' m/s,Cal: '', Txt ''7'',
         Txt '', Distance: '', Conv ''%.1f'' (ADbl (Scaled 9 D_0_1)), Txt '' m   '',
         Txt ''0003'', Txt '' '', Txt ''0005'', Txt '' '', Txt ''0008'', Txt '' '', Txt ''0A'',
         Txt NL, Txt NL])"
    by (simp add: le32_def le16_def fmt_simps replicate_2_3)
  moreover from gps_no_fix_short_circuit[of 0 ?c' "tl ?c'"] e
  have "pump Current (at_offset ?c' 0)
     = (Done, [Txt NL, Txt ''['', Conv ''%s'' (ATime Local 5), Txt ''] GPS: Lat: '',
         Conv ''%f'' (ADbl (Scaled 1 D_1e_7)), Txt '', Long: '',
         Conv ''%f'' (ADbl (Scaled (- 1) D_1e_7)), Txt '', Speed: '',
         Conv ''%.2f'' (ADbl (Scaled 4 D_0_01)), Txt '' m/s, Cal: '', Txt ''6'',
         Txt '', Distance: '', Conv ''%f'' (ADbl (OfFloat 0x40000000)), Txt '' m (+ '',
         Conv ''%f'' (ADbl (OfFloat 0x3F800000)), Txt '' m), Cycles: '', Txt ''7'',
         Txt ''   Heading '', Conv ''%.2f'' (ADbl (Scaled 3 D_0_01)),
         Txt ([CHR 0xC2, CHR 0xB0] @ NL), Txt NL])"
    by (simp add: le32_def le16_def fmt_simps)
  ultimately show ?thesis by blast
qed

subsection \<open>The activity summary\<close>

lemma payload_size_0x27: "payload_size v 0x27 = Some 16"
  by (cases v) (simp_all add: payload_size_def sizeof_defs)

lemma record_out_Summary:
  assumes "length d = 16"
  shows "record_out v 0x27 d = printf_Summary (as_Summary d)"
  using assms
  by (cases v)
     (simp_all add: record_out_def step_out_def switch_def switch_legacy_def switch_current_def
        ReadStruct_def fread_def sizeof_defs)

lemma pump_at_Summary:
  assumes "K < length c" and "c ! K = 0x27" and "K + 17 \<le> length c"
  shows "pump v (at_offset c K) =
     (fst (pump v (at_offset c (K + 17))),
      printf_Summary (as_Summary (take 16 (drop (K + 1) c))) @ snd (pump v (at_offset c (K + 17))))"
proof -
  have "length (take 16 (drop (K + 1) c)) = 16"
    using assms by simp
  then show ?thesis
    using pump_at_complete[of K c v 16] assms
    by (simp add: payload_size_0x27 record_out_Summary add.commute)
qed

lemma sint_Suc_no_wrap:
  fixes w :: "32 word"
  assumes "uint w < 2147483647"
  shows "sint (w + 1) = uint w + 1"
proof -
  have "uint w + uint (1 :: 32 word) < 2 ^ LENGTH(32)"
    using assms by simp
  then have u: "uint (w + 1) = uint w + 1"
    by (simp add: uint_add_lem[THEN iffD1])
  have "sint (w + 1) = signed_take_bit 31 (uint (w + 1))"
    by (simp add: sint_uint)
  also have "\<dots> = uint w + 1"
    unfolding u using assms by (intro signed_take_bit_int_eq_self) simp_all
  finally show ?thesis .
qed

lemma GetActivityType_unat: "GetActivityType a = activity_name (unat a)"
  by (simp add: GetActivityType_def activity_name_def word_unat_eq_iff fmt_i_def)

lemma GetActivityType_ucast:
  "GetActivityType (ucast (N :: 32 word)) = activity_name (unat N mod 256)"
  by (simp add: GetActivityType_unat unsigned_ucast_eq take_bit_eq_mod)

text \<open>
  C5, as amended: let an activity summary (tag 0x27 and its 16 payload bytes) stand at
  offset \<open>K\<close>. The duration printed is the 32-bit sum of the stored duration (offset 8 of
  the payload) and 1, read as a signed 32-bit number by \<^verbatim>\<open>%i\<close>. For every stored
  duration below \<open>2\<^sup>3\<^sup>1 - 1\<close> this is the stored duration plus 1: a stored 59 is printed
  as 60.
\<close>

theorem summary_duration_rendered:
  assumes "K < length contents" and "contents ! K = 0x27" and "K + 17 \<le> length contents"
    and "s = as_Summary (take 16 (drop (K + 1) contents))"
  shows "pump v (at_offset contents K) =
           (fst (pump v (at_offset contents (K + 17))),
            [Txt (''Summary:'' @ NL @ ''  Activity type: ''),
             Txt (GetActivityType (ucast (activity_type s))), Txt (NL @ ''  Distance ''),
             Txt (fmt_i (sint (summary_distance s))), Txt (''m'' @ NL @ ''  Duration: ''),
             Txt (fmt_i (sint (duration s + 1))), Txt ('' s'' @ NL @ ''  Calories: ''),
             Txt (fmt_i (sint (summary_calories s))), Txt NL]
            @ snd (pump v (at_offset contents (K + 17))))
       \<and> duration s = le32 (take 16 (drop (K + 1) contents)) 8
       \<and> (uint (duration s) < 2147483647 \<longrightarrow> sint (duration s + 1) = uint (duration s) + 1)"
  using assms
  by (simp add: pump_at_Summary sint_Suc_no_wrap) (simp add: printf_Summary_def as_Summary_def)

theorem summary_duration_rendered_witness:
  "pump Current (at_offset [0x27, 0,0,0,0, 100,0,0,0, 59,0,0,0, 5,0,0,0] 0) =
     (Done, [Txt (''Summary:'' @ NL @ ''  Activity type: ''), Txt ''Run'',
             Txt (NL @ ''  Distance ''), Txt ''100'', Txt (''m'' @ NL @ ''  Duration: ''),
             Txt ''60'', Txt ('' s'' @ NL @ ''  Calories: ''), Txt ''5'', Txt NL])"
proof -
  let ?c = "[0x27, 0,0,0,0, 100,0,0,0, 59,0,0,0, 5,0,0,0 :: byte]"
  have e: "pump Current (at_offset ?c (0 + 17)) = (Done, [])"
    by (simp add: pump_at_end)
  from summary_duration_rendered[of 0 ?c "as_Summary (tl ?c)" Current] e
  show ?thesis
    by (simp add: as_Summary_def le32_def GetActivityType_def fmt_simps)
qed

text \<open>
  The claim without the bound fails: with the stored duration \<^verbatim>\<open>0xffffffff\<close> the
  unsigned sum wraps and the program prints a duration of 0, where the stored duration
  plus 1 is 4294967296; with the stored duration \<^verbatim>\<open>0x7fffffff\<close> the sum is printed as
  the negative number -2147483648.
\<close>

theorem summary_duration_counterexample:
  "duration (as_Summary [0,0,0,0, 0,0,0,0, 0xFF,0xFF,0xFF,0xFF, 0,0,0,0]) = 0xFFFFFFFF
   \<and> main Current [0x27, 0,0,0,0, 0,0,0,0, 0xFF,0xFF,0xFF,0xFF, 0,0,0,0] =
     (Done, [Txt (''Summary:'' @ NL @ ''  Activity type: ''), Txt ''Run'',
             Txt (NL @ ''  Distance ''), Txt ''0'', Txt (''m'' @ NL @ ''  Duration: ''),
             Txt ''0'', Txt ('' s'' @ NL @ ''  Calories: ''), Txt ''0'', Txt NL])
   \<and> fmt_i (uint (0xFFFFFFFF :: 32 word) + 1) = ''4294967296''
   \<and> Txt ''0'' \<noteq> Txt (fmt_i (uint (0xFFFFFFFF :: 32 word) + 1))
   \<and> duration (as_Summary [0,0,0,0, 0,0,0,0, 0xFF,0xFF,0xFF,0x7F, 0,0,0,0]) = 0x7FFFFFFF
   \<and> main Legacy (replicate 117 0 @ [0x27, 0,0,0,0, 0,0,0,0, 0xFF,0xFF,0xFF,0x7F, 0,0,0,0]) =
     (Done, [Txt (''Summary:'' @ NL @ ''  Activity type: ''), Txt ''Run'',
             Txt (NL @ ''  Distance ''), Txt ''0'', Txt (''m'' @ NL @ ''  Duration: ''),
             Txt ''-2147483648'', Txt ('' s'' @ NL @ ''  Calories: ''), Txt ''0'', Txt NL])
   \<and> fmt_i (uint (0x7FFFFFFF :: 32 word) + 1) = ''2147483648''"
  by (simp add: run_simps as_Summary_def le32_def printf_Summary_def GetActivityType_def fmt_simps)

text \<open>
  C8: the activity name printed for a summary is the entry of the table for the stored
  32-bit \<^verbatim>\<open>activity_type\<close> (offset 0 of the payload) modulo 256, since the value is
  converted to the \<^verbatim>\<open>uint8_t\<close> parameter of \<^verbatim>\<open>GetActivityType\<close>: an activity type of 256
  is printed as \<^verbatim>\<open>Run\<close>.
\<close>

theorem summary_activity_low_byte:
  assumes "K < length contents" and "contents ! K = 0x27" and "K + 17 \<le> length contents"
    and "s = as_Summary (take 16 (drop (K + 1) contents))"
  shows "take 2 (snd (pump v (at_offset contents K))) =
           [Txt (''Summary:'' @ NL @ ''  Activity type: ''),
            Txt (activity_name (unat (activity_type s) mod 256))]
       \<and> activity_type s = le32 (take 16 (drop (K + 1) contents)) 0"
  using assms
  by (simp add: pump_at_Summary) (simp add: printf_Summary_def as_Summary_def GetActivityType_ucast)

theorem summary_activity_low_byte_witness:
  "take 2 (snd (pump Current (at_offset [0x27, 0,1,0,0, 0,0,0,0, 0,0,0,0, 0,0,0,0] 0))) =
     [Txt (''Summary:'' @ NL @ ''  Activity type: ''), Txt ''Run'']
   \<and> le32 [0,1,0,0, 0,0,0,0, 0,0,0,0, 0,0,0,0] 0 = 256
   \<and> take 2 (snd (pump Legacy (at_offset [0x27, 5,1,0,0, 0,0,0,0, 0,0,0,0, 0,0,0,0] 0))) =
     [Txt (''Summary:'' @ NL @ ''  Activity type: ''), Txt ''Type 5'']"
  using
    summary_activity_low_byte[of 0 "[0x27, 0,1,0,0, 0,0,0,0, 0,0,0,0, 0,0,0,0]"
      "as_Summary [0,1,0,0, 0,0,0,0, 0,0,0,0, 0,0,0,0]" Current]
    summary_activity_low_byte[of 0 "[0x27, 5,1,0,0, 0,0,0,0, 0,0,0,0, 0,0,0,0]"
      "as_Summary [5,1,0,0, 0,0,0,0, 0,0,0,0, 0,0,0,0]" Legacy]
  by (simp add: as_Summary_def le32_def activity_name_def fmt_simps)

subsection \<open>The buffer of \<^verbatim>\<open>ReadAndDump\<close>\<close>

lemma switch_legacy_Stop:
  assumes "switch_legacy tag f = Stop s out"
  shows "s = Fatal"
  using assms unfolding switch_legacy_def
  by (auto split: if_splits option.splits sum.splits simp: ReadAndDump_Inl)

lemma switch_current_Stop:
  assumes "switch_current tag f = Stop s out"
  shows "s = Fatal"
  using assms unfolding switch_current_def
  by (auto split: if_splits option.splits sum.splits simp: ReadAndDump_Inl)

lemma switch_Stop: "switch v tag f = Stop s out \<Longrightarrow> s = Fatal"
  by (cases v) (simp_all add: switch_def switch_legacy_Stop switch_current_Stop)

lemma pump_status: "fst (pump v f) \<noteq> Overrun"
proof (induction v f rule: pump.induct)
  case (1 v f)
  show ?case
  proof (cases "feof f \<or> length (fst (fread 1 f)) < 1")
    case True
    then show ?thesis
      by (subst pump.simps) (auto split: prod.splits)
  next
    case False
    obtain buffer f1 where r: "fread 1 f = (buffer, f1)"
      by (cases "fread 1 f")
    show ?thesis
    proof (cases "switch v (buffer ! 0) f1")
      case (Continue out f2)
      from False r have "\<not> feof f" and "\<not> length buffer < 1"
        by simp_all
      from "1.IH"[OF this(1) r[symmetric] this(2) Continue]
      have "fst (pump v f2) \<noteq> Overrun" .
      with False r Continue show ?thesis
        by (subst pump.simps) (auto split: prod.splits)
    next
      case (Stop s out)
      with False r switch_Stop[of v "buffer ! 0" f1 s out] show ?thesis
        by (subst pump.simps) (auto split: prod.splits)
    qed
  qed
qed

text \<open>
  C10: \<^verbatim>\<open>ReadAndDump\<close> is called by the branches of the tags 0x26, 0x30 and 0x37 with
  the sizes 6, 2 and 1. Each is at most 256, the size of the buffer, so no call runs over
  the buffer: whatever the file holds, neither program ever ends in \<open>Overrun\<close>. With
  these sizes the call ends the program (in \<open>Fatal\<close>) exactly when fewer bytes than
  asked for are left; otherwise it dumps the bytes it has read, as many as asked for.
\<close>

theorem ReadAndDump_within_buffer:
  "fst (pump v f) \<noteq> Overrun
   \<and> switch v 0x26 f =
       (case ReadAndDump 6 f of Inl s \<Rightarrow> Stop s [Txt ''Tag 0x26: '']
        | Inr (out, f') \<Rightarrow> Continue (Txt ''Tag 0x26: '' # out) f')
   \<and> switch v 0x30 f =
       (case ReadAndDump 2 f of Inl s \<Rightarrow> Stop s [Txt ''Tag 0x30: '']
        | Inr (out, f') \<Rightarrow> Continue (Txt ''Tag 0x30: '' # out) f')
   \<and> switch v 0x37 f =
       (case ReadAndDump 1 f of Inl s \<Rightarrow> Stop s [Txt ''Tag 0x37: '']
        | Inr (out, f') \<Rightarrow> Continue (Txt ''Tag 0x37: '' # out) f')
   \<and> (\<forall>sz \<in> {6, 2, 1}.
         sz \<le> 256 \<and> ReadAndDump sz f \<noteq> Inl Overrun
         \<and> (ReadAndDump sz f = Inl Fatal \<longleftrightarrow> length (rest f) < nat sz)
         \<and> (length (rest f) < nat sz
            \<or> ReadAndDump sz f = Inr (Dump (take (nat sz) (rest f)),
                 \<lparr>rest = drop (nat sz) (rest f), pos = pos f + nat sz, eof = eof f\<rparr>)))"
proof (intro conjI)
  show "fst (pump v f) \<noteq> Overrun"
    by (rule pump_status)
  show "switch v 0x26 f =
       (case ReadAndDump 6 f of Inl s \<Rightarrow> Stop s [Txt ''Tag 0x26: '']
        | Inr (out, f') \<Rightarrow> Continue (Txt ''Tag 0x26: '' # out) f')"
    by (cases v) (simp_all add: switch_def switch_legacy_def switch_current_def)
  show "switch v 0x30 f =
       (case ReadAndDump 2 f of Inl s \<Rightarrow> Stop s [Txt ''Tag 0x30: '']
        | Inr (out, f') \<Rightarrow> Continue (Txt ''Tag 0x30: '' # out) f')"
    by (cases v) (simp_all add: switch_def switch_legacy_def switch_current_def)
  show "switch v 0x37 f =
       (case ReadAndDump 1 f of Inl s \<Rightarrow> Stop s [Txt ''Tag 0x37: '']
        | Inr (out, f') \<Rightarrow> Continue (Txt ''Tag 0x37: '' # out) f')"
    by (cases v) (simp_all add: switch_def switch_legacy_def switch_current_def)
  show "\<forall>sz \<in> {6, 2, 1}.
         sz \<le> 256 \<and> ReadAndDump sz f \<noteq> Inl Overrun
         \<and> (ReadAndDump sz f = Inl Fatal \<longleftrightarrow> length (rest f) < nat sz)
         \<and> (length (rest f) < nat sz
            \<or> ReadAndDump sz f = Inr (Dump (take (nat sz) (rest f)),
                 \<lparr>rest = drop (nat sz) (rest f), pos = pos f + nat sz, eof = eof f\<rparr>))"
    by (auto simp: ReadAndDump_Inl ReadAndDump_Inr Suc_le_eq)
qed

theorem ReadAndDump_within_buffer_witness:
  "fst (pump Current (fopen [0x30, 1])) \<noteq> Overrun
   \<and> ReadAndDump 2 (fopen [1]) = Inl Fatal
   \<and> ReadAndDump 1 (fopen [1]) = Inr ([Txt '' 01'', Txt NL], \<lparr>rest = [], pos = 1, eof = False\<rparr>)
   \<and> switch Current 0x30 \<lparr>rest = [1], pos = 1, eof = False\<rparr> = Stop Fatal [Txt ''Tag 0x30: '']"
  using ReadAndDump_within_buffer[of Current "fopen [0x30, 1]"]
    ReadAndDump_within_buffer[of Current "fopen [1]"]
    ReadAndDump_within_buffer[of Current "\<lparr>rest = [1], pos = 1, eof = False\<rparr>"]
  by (simp add: fopen_def Dump_def fmt_simps)

subsection \<open>Time zones of the timestamps\<close>

lemma zones_append: "zones (ps @ qs) = zones ps @ zones qs"
  by (induction ps rule: zones.induct) simp_all

lemma zones_Txt: "zones (map (\<lambda>x. Txt (g x)) xs) = []"
  by (induction xs) simp_all

lemma zones_dump_from: "zones (dump_from i d) = []"
  by (induction i d rule: dump_from.induct) (simp_all add: zones_append)

lemma zones_Dump: "zones (Dump d) = []"
  by (simp add: Dump_def zones_append zones_dump_from)

lemma zones_Lap:
  "length d = 6 \<Longrightarrow> zones (record_out Legacy 0x21 d) = [Local]"
  "length d = 6 \<Longrightarrow> zones (record_out Current 0x21 d) = [GMT]"
  by (simp_all add: record_simps printf_defs)

lemma zones_GPS:
  "length d = 27 \<Longrightarrow> zones (record_out Legacy 0x22 d) = (if le32 d 14 = 0xffffffff then [] else [Local])"
  "length d = 27 \<Longrightarrow> zones (record_out Current 0x22 d) = (if le32 d 12 = 0xffffffff then [] else [Local])"
  by (simp_all add: record_simps printf_defs as_GPS_legacy_def as_GPS_def)

lemma zones_HeartRate: "length d = 6 \<Longrightarrow> zones (record_out v 0x25 d) = [GMT]"
  by (cases v) (simp_all add: record_simps printf_defs)

lemma zones_Treadmill: "length d = 18 \<Longrightarrow> zones (record_out v 0x32 d) = [GMT]"
  by (cases v) (simp_all add: record_simps printf_defs)

lemma zones_Swim: "length d = 22 \<Longrightarrow> zones (record_out v 0x34 d) = [GMT]"
  by (cases v) (simp_all add: record_simps printf_defs zones_append zones_Txt)

lemma zones_r35: "length d = 6 \<Longrightarrow> zones (record_out v 0x35 d) = [Local]"
  by (cases v) (simp_all add: record_simps printf_defs)

lemma zones_R23: "zones (record_out v 0x23 d) = []"
  by (cases v) (simp_all add: record_simps printf_defs zones_append zones_Dump)

lemma zones_Summary: "zones (record_out v 0x27 d) = []"
  by (cases v) (simp_all add: record_simps printf_defs)

lemma zones_ReadAndDump:
  "zones (record_out v 0x26 d) = []" "zones (record_out v 0x30 d) = []"
  "zones (record_out v 0x37 d) = []"
  by (cases v; simp add: record_simps zones_Dump)+

text \<open>
  C7, as amended: the pass prints for a whole record of a known tag what \<open>record_out\<close>
  gives for its payload. For the tags 0x22, 0x25, 0x32, 0x34 and 0x35 both programs make
  the same choice of time zone: local time for 0x22 (when there is a fix) and 0x35, GMT
  for 0x25, 0x32 and 0x34. The tags 0x23, 0x26, 0x27, 0x30 and 0x37 print no timestamp
  in either program. For the lap record, tag 0x21, the choice differs: the legacy program
  prints local time, the current program GMT.
\<close>

theorem time_zone_per_tag:
  "(K < length contents \<and> payload_size v (contents ! K) = Some n \<and> K + 1 + n \<le> length contents
      \<longrightarrow> pump v (at_offset contents K) =
           (fst (pump v (at_offset contents (K + 1 + n))),
            record_out v (contents ! K) (take n (drop (K + 1) contents))
            @ snd (pump v (at_offset contents (K + 1 + n)))))
   \<and> (length d22 = 27 \<longrightarrow>
         zones (record_out Legacy 0x22 d22) = (if le32 d22 14 = 0xffffffff then [] else [Local])
       \<and> zones (record_out Current 0x22 d22) = (if le32 d22 12 = 0xffffffff then [] else [Local]))
   \<and> (length d25 = 6 \<longrightarrow>
         zones (record_out Legacy 0x25 d25) = [GMT] \<and> zones (record_out Current 0x25 d25) = [GMT])
   \<and> (length d32 = 18 \<longrightarrow>
         zones (record_out Legacy 0x32 d32) = [GMT] \<and> zones (record_out Current 0x32 d32) = [GMT])
   \<and> (length d34 = 22 \<longrightarrow>
         zones (record_out Legacy 0x34 d34) = [GMT] \<and> zones (record_out Current 0x34 d34) = [GMT])
   \<and> (length d35 = 6 \<longrightarrow>
         zones (record_out Legacy 0x35 d35) = [Local] \<and> zones (record_out Current 0x35 d35) = [Local])
   \<and> (\<forall>tag \<in> {0x23, 0x26, 0x27, 0x30, 0x37}.
         zones (record_out Legacy tag d) = [] \<and> zones (record_out Current tag d) = [])
   \<and> (length d21 = 6 \<longrightarrow>
         zones (record_out Legacy 0x21 d21) = [Local] \<and> zones (record_out Current 0x21 d21) = [GMT])"
  by (simp add: pump_at_complete zones_Lap zones_GPS zones_HeartRate zones_Treadmill zones_Swim
      zones_r35 zones_R23 zones_Summary zones_ReadAndDump)

theorem time_zone_per_tag_witness:
  "pump Current (at_offset [0x25, 70, 0, 5,0,0,0] 0) =
     (Done, record_out Current 0x25 [70, 0, 5,0,0,0])
   \<and> record_out Current 0x25 [70, 0, 5,0,0,0] =
       [Txt ''['', Conv ''%s'' (ATime GMT 5), Txt ''] Heart BPM: '', Txt ''70'', Txt NL]
   \<and> zones (record_out Legacy 0x22 (replicate 27 0)) = [Local]
   \<and> zones (record_out Current 0x22 (replicate 27 0xFF)) = []
   \<and> zones (record_out Legacy 0x25 [70, 0, 5,0,0,0]) = [GMT]
   \<and> zones (record_out Current 0x32 (replicate 18 0)) = [GMT]
   \<and> zones (record_out Legacy 0x34 (replicate 22 0)) = [GMT]
   \<and> zones (record_out Current 0x35 [0, 0, 5,0,0,0]) = [Local]
   \<and> zones (record_out Current 0x27 []) = []
   \<and> zones (record_out Legacy 0x21 [1, 0, 5,0,0,0]) = [Local]
   \<and> zones (record_out Current 0x21 [1, 0, 5,0,0,0]) = [GMT]"
proof -
  have e: "pump Current (at_offset [0x25, 70, 0, 5,0,0,0] (0 + 1 + 6)) = (Done, [])"
    by (simp add: pump_at_end)
  have s: "payload_size Current 0x25 = Some 6"
    by (simp add: payload_size_def sizeof_defs)
  have r: "record_out Current 0x25 [70, 0, 5,0,0,0] =
       [Txt ''['', Conv ''%s'' (ATime GMT 5), Txt ''] Heart BPM: '', Txt ''70'', Txt NL]"
    by (simp add: record_simps printf_defs as_HeartRate_def le32_def fmt_simps)
  have l: "le32 (replicate 27 0) 14 = 0" "le32 (replicate 27 0xFF) 12 = 0xffffffff"
    by (simp_all add: le32_def)
  from time_zone_per_tag[of 0 "[0x25, 70, 0, 5,0,0,0]" Current 6 "replicate 27 0"
      "[70, 0, 5,0,0,0]" "replicate 18 0" "replicate 22 0" "[0, 0, 5,0,0,0]" "[]" "[1, 0, 5,0,0,0]"]
    time_zone_per_tag[of 0 "[]" Current 0 "replicate 27 0xFF"
      "[]" "[]" "[]" "[]" "[]" "[]"]
    e s r l
  show ?thesis by simp
qed

text \<open>
  The claim that the choice is the same for every tag that both programs decode fails at
  the lap record: the same payload is printed with \<^verbatim>\<open>GetLocalTime\<close> by the legacy program
  and with \<^verbatim>\<open>GetGMTTime\<close> by the current one.
\<close>

theorem time_zone_per_tag_counterexample:
  "main Legacy (replicate 117 0 @ [0x21, 1, 0, 5,0,0,0]) =
     (Done, [Txt ''['', Conv ''%s'' (ATime Local 5), Txt ''] Lap: '', Txt ''1'',
             Txt '' activity: '', Txt ''Run'', Txt NL])
   \<and> main Current [0x21, 1, 0, 5,0,0,0] =
     (Done, [Txt ''['', Conv ''%s'' (ATime GMT 5), Txt ''] Lap: '', Txt ''1'',
             Txt '' activity: '', Txt ''Run'', Txt NL])
   \<and> zones (snd (main Legacy (replicate 117 0 @ [0x21, 1, 0, 5,0,0,0])))
       \<noteq> zones (snd (main Current [0x21, 1, 0, 5,0,0,0]))"
proof -
  have a: "main Legacy (replicate 117 0 @ [0x21, 1, 0, 5,0,0,0]) =
     (Done, [Txt ''['', Conv ''%s'' (ATime Local 5), Txt ''] Lap: '', Txt ''1'',
             Txt '' activity: '', Txt ''Run'', Txt NL])"
    by (simp add: run_simps printf_defs as_Lap_def le32_def GetActivityType_def fmt_simps)
  have b: "main Current [0x21, 1, 0, 5,0,0,0] =
     (Done, [Txt ''['', Conv ''%s'' (ATime GMT 5), Txt ''] Lap: '', Txt ''1'',
             Txt '' activity: '', Txt ''Run'', Txt NL])"
    by (simp add: run_simps printf_defs as_Lap_def le32_def GetActivityType_def fmt_simps)
  show ?thesis
    unfolding a b by simp
qed

subsection \<open>The header\<close>

lemma main_Legacy_header:
  assumes "length h = 116"
  shows "main Legacy (m # h @ r) = pump Legacy \<lparr>rest = r, pos = 117, eof = False\<rparr>"
  using assms
  by (simp add: main_def main_legacy_def fopen_def ReadStruct_def fread_def sizeof_defs)

lemma main_Current_header:
  assumes "length h = 116"
  shows "main Current (0x20 # h @ r) =
     (fst (pump Current \<lparr>rest = r, pos = 117, eof = False\<rparr>),
      printf_Header (as_Header h) @ snd (pump Current \<lparr>rest = r, pos = 117, eof = False\<rparr>))"
  using assms
  by (simp add: main_def main_current_def fopen_def pump_step switch_def switch_current_def
      ReadStruct_def fread_def sizeof_defs)

lemma pump_at_Header:
  assumes "K < length c" and "c ! K = 0x20" and "K + 117 \<le> length c"
  shows "pump Current (at_offset c K) =
     (fst (pump Current (at_offset c (K + 117))),
      printf_Header (as_Header (take 116 (drop (K + 1) c)))
      @ snd (pump Current (at_offset c (K + 117))))"
proof -
  have s: "payload_size Current 0x20 = Some 116"
    by (simp add: payload_size_def sizeof_defs)
  have "length (take 116 (drop (K + 1) c)) = 116"
    using assms by simp
  then have "record_out Current 0x20 (take 116 (drop (K + 1) c))
      = printf_Header (as_Header (take 116 (drop (K + 1) c)))"
    by (simp add: record_simps)
  then show ?thesis
    using pump_at_complete[of K c Current 116] assms s by (simp add: add.commute)
qed

text \<open>
  C6, as amended: in the legacy program the 117 bytes of the header are read before the
  loop and are mandatory: a file with fewer than 117 bytes ends the program with
  \<^verbatim>\<open>exit(-1)\<close> and no output, and otherwise the loop starts at offset 117 (a tag byte 0x20
  met later is an unknown tag there). In the current program the loop starts at offset 0
  with nothing read; the header is the record of tag 0x20 (116 payload bytes), decoded
  by a branch of the \<^verbatim>\<open>switch\<close> wherever the pass meets that tag.
\<close>

theorem header_before_loop:
  "(length contents < 117 \<longrightarrow> main Legacy contents = (Fatal, []))
   \<and> (117 \<le> length contents \<longrightarrow>
        main Legacy contents = pump Legacy (at_offset contents 117))
   \<and> main Current contents = pump Current (at_offset contents 0)
   \<and> (K < length contents \<and> contents ! K = 0x20 \<and> K + 117 \<le> length contents \<longrightarrow>
        pump Current (at_offset contents K) =
          (fst (pump Current (at_offset contents (K + 117))),
           printf_Header (as_Header (take 116 (drop (K + 1) contents)))
           @ snd (pump Current (at_offset contents (K + 117)))))
   \<and> payload_size Legacy 0x20 = None"
  using main_start[of contents]
  by (simp add: sizeof_defs pump_at_Header) (simp add: payload_size_def)

theorem header_before_loop_witness:
  "main Legacy (replicate 116 0) = (Fatal, [])
   \<and> main Legacy (replicate 117 0 @ [0x37, 7]) = (Done, [Txt ''Tag 0x37: '', Txt '' 07'', Txt NL])
   \<and> main Current (0x20 # 0x07 # replicate 115 0) =
       (Done, [Txt ''['', Conv ''%s'' (ATime GMT 0), Txt ''] Header: file format '', Txt ''7'',
               Txt '', watch version ('', Txt ''0'', Txt '','', Txt ''0'', Txt '','',
               Txt ''0'', Txt '','', Txt ''0'', Txt ('')'' @ NL)])"
proof -
  let ?c = "0x20 # 0x07 # replicate 115 (0 :: byte)"
  have e: "pump Legacy (at_offset (replicate 117 0 @ [0x37, 7]) 117)
      = (Done, [Txt ''Tag 0x37: '', Txt '' 07'', Txt NL])"
    by (simp add: run_simps fmt_simps)
  have e': "pump Current (at_offset ?c (0 + 117)) = (Done, [])"
    by (simp add: pump_at_end)
  have h: "printf_Header (as_Header (take 116 (drop (0 + 1) ?c))) =
       [Txt ''['', Conv ''%s'' (ATime GMT 0), Txt ''] Header: file format '', Txt ''7'',
               Txt '', watch version ('', Txt ''0'', Txt '','', Txt ''0'', Txt '','',
               Txt ''0'', Txt '','', Txt ''0'', Txt ('')'' @ NL)]"
    by (simp add: printf_defs as_Header_def le32_def le16_def fmt_simps)
  from header_before_loop[of "replicate 116 0" 0] header_before_loop[of "replicate 117 0 @ [0x37, 7]" 0]
    header_before_loop[of ?c 0] e e' h
  show ?thesis by simp
qed

text \<open>
  The claim that the header is always read first and is mandatory fails for the current
  program: on a file that holds only a record of tag 0x37 it decodes that record and
  returns 0, and on the empty file it returns 0, with no header read. The legacy program
  ends both files in \<open>Fatal\<close>.
\<close>

theorem header_before_loop_counterexample:
  "main Current [0x37, 7] = (Done, [Txt ''Tag 0x37: '', Txt '' 07'', Txt NL])
   \<and> main Current [] = (Done, [])
   \<and> main Legacy [0x37, 7] = (Fatal, [])"
  by (simp add: run_simps fmt_simps)

text \<open>
  C2, as amended: neither program selects a dialect. Each has its own layout built in
  and decodes every record with it, whatever the header holds. The legacy program reads
  the 117 bytes of the header (the first of them, \<open>m\<close>, would be the tag) without looking
  at them, and goes on with its loop on the rest of the file. The current program
  decodes the header in its loop, prints the format marker (the first byte of the
  payload \<open>h\<close>), and goes on with the same loop on the rest of the file: what it does
  there does not depend on \<open>h\<close>.
\<close>

theorem layout_fixed_per_program:
  assumes "length h = 116"
  shows "main Legacy (m # h @ r) = pump Legacy \<lparr>rest = r, pos = 117, eof = False\<rparr>
       \<and> main Current (0x20 # h @ r) =
           (fst (pump Current \<lparr>rest = r, pos = 117, eof = False\<rparr>),
            printf_Header (as_Header h) @ snd (pump Current \<lparr>rest = r, pos = 117, eof = False\<rparr>))
       \<and> file_format (as_Header h) = h ! 0"
  using assms by (simp add: main_Legacy_header main_Current_header) (simp add: as_Header_def)

theorem layout_fixed_per_program_witness:
  "main Legacy (0x20 # (0x07 # replicate 115 0) @ 0x22 # replicate 27 0xFF) =
     (Done, [Txt NL, Txt (''No GPS lock'' @ NL), Txt NL])
   \<and> main Current (0x20 # (0x05 # replicate 115 0) @ 0x22 # replicate 27 0xFF) =
     (Done, [Txt ''['', Conv ''%s'' (ATime GMT 0), Txt ''] Header: file format '', Txt ''5'',
        Txt '', watch version ('', Txt ''0'', Txt '','', Txt ''0'', Txt '','',
        Txt ''0'', Txt '','', Txt ''0'', Txt ('')'' @ NL)]
       @ [Txt NL, Txt (''No GPS lock'' @ NL), Txt NL])"
proof -
  have e: "pump v \<lparr>rest = 0x22 # replicate 27 0xFF, pos = 117, eof = False\<rparr>
      = (Done, [Txt NL, Txt (''No GPS lock'' @ NL), Txt NL])" for v
    by (cases v) (simp_all add: run_simps as_GPS_legacy_def as_GPS_def le32_def)
  have h: "printf_Header (as_Header (0x05 # replicate 115 0)) =
      [Txt ''['', Conv ''%s'' (ATime GMT 0), Txt ''] Header: file format '', Txt ''5'',
        Txt '', watch version ('', Txt ''0'', Txt '','', Txt ''0'', Txt '','',
        Txt ''0'', Txt '','', Txt ''0'', Txt ('')'' @ NL)]"
    by (simp add: printf_defs as_Header_def le32_def le16_def fmt_simps)
  from layout_fixed_per_program[where h = "0x05 # replicate 115 0" and m = "0x20"
      and r = "0x22 # replicate 27 0xFF"]
    layout_fixed_per_program[where h = "0x07 # replicate 115 0" and m = "0x20"
      and r = "0x22 # replicate 27 0xFF"] e h
  show ?thesis by simp
qed

text \<open>
  The claim that the layout follows the format marker fails in both programs. The GPS
  payload below has \<^verbatim>\<open>0xffffffff\<close> at offset 12, the time field of the current layout,
  and \<^verbatim>\<open>0x0000ffff\<close> at offset 14, the time field of the legacy layout. After a header
  with the marker 05 the current program prints \<^verbatim>\<open>No GPS lock\<close>, where the dialect the
  specification selects for 05 prints the legacy line; after a header with the marker 07
  the legacy program prints the legacy line, where the dialect selected for 07 prints
  \<^verbatim>\<open>No GPS lock\<close>.
\<close>

theorem dialect_selection_counterexample:
  "spec_dialect 0x05 = Legacy \<and> spec_dialect 0x07 = Current
   \<and> main Current (0x20 # (0x05 # replicate 115 0) @ 0x22 # [0,0,0,0, 0,0,0,0, 0,0, 0,0, 0xFF,0xFF,0xFF,0xFF, 0,0, 0,0,0,0, 0,0,0,0, 0]) =
     (Done, [Txt ''['', Conv ''%s'' (ATime GMT 0), Txt ''] Header: file format '', Txt ''5'',
        Txt '', watch version ('', Txt ''0'', Txt '','', Txt ''0'', Txt '','',
        Txt ''0'', Txt '','', Txt ''0'', Txt ('')'' @ NL)]
       @ [Txt NL, Txt (''No GPS lock'' @ NL), Txt NL])
   \<and> record_out (spec_dialect 0x05) 0x22 [0,0,0,0, 0,0,0,0, 0,0, 0,0, 0xFF,0xFF,0xFF,0xFF, 0,0, 0,0,0,0, 0,0,0,0, 0] =
       [Txt NL, Txt ''['', Conv ''%s'' (ATime Local 65535), Txt ''] GPS: Lat: '',
        Conv ''%f'' (ADbl (Scaled 0 D_1e_7)), Txt '', Long: '',
        Conv ''%f'' (ADbl (Scaled 0 D_1e_7)), Txt '', Speed: '',
        Conv ''%.2f'' (ADbl (Scaled 0 D_0_01)), Txt '' m/s,Cal: '', Txt ''0'',
        Txt '', Distance: '', Conv ''%.1f'' (ADbl (Scaled 0 D_0_1)), Txt '' m   '',
        Txt ''0000'', Txt '' '', Txt ''FFFF'', Txt '' '', Txt ''0000'', Txt '' '', Txt ''00'',
        Txt NL, Txt NL]
   \<and> main Legacy (0x20 # (0x07 # replicate 115 0) @ 0x22 # [0,0,0,0, 0,0,0,0, 0,0, 0,0, 0xFF,0xFF,0xFF,0xFF, 0,0, 0,0,0,0, 0,0,0,0, 0]) =
     (Done, [Txt NL, Txt ''['', Conv ''%s'' (ATime Local 65535), Txt ''] GPS: Lat: '',
        Conv ''%f'' (ADbl (Scaled 0 D_1e_7)), Txt '', Long: '',
        Conv ''%f'' (ADbl (Scaled 0 D_1e_7)), Txt '', Speed: '',
        Conv ''%.2f'' (ADbl (Scaled 0 D_0_01)), Txt '' m/s,Cal: '', Txt ''0'',
        Txt '', Distance: '', Conv ''%.1f'' (ADbl (Scaled 0 D_0_1)), Txt '' m   '',
        Txt ''0000'', Txt '' '', Txt ''FFFF'', Txt '' '', Txt ''0000'', Txt '' '', Txt ''00'',
        Txt NL, Txt NL])
   \<and> record_out (spec_dialect 0x07) 0x22 [0,0,0,0, 0,0,0,0, 0,0, 0,0, 0xFF,0xFF,0xFF,0xFF, 0,0, 0,0,0,0, 0,0,0,0, 0] = [Txt NL, Txt (''No GPS lock'' @ NL), Txt NL]
   \<and> record_out Legacy 0x22 [0,0,0,0, 0,0,0,0, 0,0, 0,0, 0xFF,0xFF,0xFF,0xFF, 0,0, 0,0,0,0, 0,0,0,0, 0] \<noteq> record_out Current 0x22 [0,0,0,0, 0,0,0,0, 0,0, 0,0, 0xFF,0xFF,0xFF,0xFF, 0,0, 0,0,0,0, 0,0,0,0, 0]"
proof -
  let ?G = "[0,0,0,0, 0,0,0,0, 0,0, 0,0, 0xFF,0xFF,0xFF,0xFF, 0,0, 0,0,0,0, 0,0,0,0, 0] :: byte list"
  have l: "record_out Legacy 0x22 ?G =
       [Txt NL, Txt ''['', Conv ''%s'' (ATime Local 65535), Txt ''] GPS: Lat: '',
        Conv ''%f'' (ADbl (Scaled 0 D_1e_7)), Txt '', Long: '',
        Conv ''%f'' (ADbl (Scaled 0 D_1e_7)), Txt '', Speed: '',
        Conv ''%.2f'' (ADbl (Scaled 0 D_0_01)), Txt '' m/s,Cal: '', Txt ''0'',
        Txt '', Distance: '', Conv ''%.1f'' (ADbl (Scaled 0 D_0_1)), Txt '' m   '',
        Txt ''0000'', Txt '' '', Txt ''FFFF'', Txt '' '', Txt ''0000'', Txt '' '', Txt ''00'',
        Txt NL, Txt NL]"
    by (simp add: record_out_GPS_legacy le32_def le16_def printf_defs as_GPS_legacy_def fmt_simps
        replicate_2_3)
  have c: "record_out Current 0x22 ?G = [Txt NL, Txt (''No GPS lock'' @ NL), Txt NL]"
    by (simp add: record_out_GPS_current le32_def)
  have p: "pump v \<lparr>rest = 0x22 # ?G, pos = 117, eof = False\<rparr> = (Done, record_out v 0x22 ?G)" for v
    using pump_at_complete[of 0 "0x22 # ?G" v 27] pump_at_end[of "0x22 # ?G" 28 v]
    by (simp add: payload_size_0x22 at_offset_def pump_step switch_complete pump_done)
  have h: "printf_Header (as_Header (0x05 # replicate 115 0)) =
      [Txt ''['', Conv ''%s'' (ATime GMT 0), Txt ''] Header: file format '', Txt ''5'',
        Txt '', watch version ('', Txt ''0'', Txt '','', Txt ''0'', Txt '','',
        Txt ''0'', Txt '','', Txt ''0'', Txt ('')'' @ NL)]"
    by (simp add: printf_defs as_Header_def le32_def le16_def fmt_simps)
  have s: "spec_dialect 0x05 = Legacy" "spec_dialect 0x07 = Current"
    by (simp_all add: spec_dialect_def)
  have m: "main Current (0x20 # (0x05 # replicate 115 0) @ 0x22 # ?G) =
     (Done, [Txt ''['', Conv ''%s'' (ATime GMT 0), Txt ''] Header: file format '', Txt ''5'',
        Txt '', watch version ('', Txt ''0'', Txt '','', Txt ''0'', Txt '','',
        Txt ''0'', Txt '','', Txt ''0'', Txt ('')'' @ NL)]
       @ [Txt NL, Txt (''No GPS lock'' @ NL), Txt NL])"
    using main_Current_header[of "0x05 # replicate 115 0" "0x22 # ?G"] by (simp add: p c h)
  have m': "main Legacy (0x20 # (0x07 # replicate 115 0) @ 0x22 # ?G) =
     (Done, [Txt NL, Txt ''['', Conv ''%s'' (ATime Local 65535), Txt ''] GPS: Lat: '',
        Conv ''%f'' (ADbl (Scaled 0 D_1e_7)), Txt '', Long: '',
        Conv ''%f'' (ADbl (Scaled 0 D_1e_7)), Txt '', Speed: '',
        Conv ''%.2f'' (ADbl (Scaled 0 D_0_01)), Txt '' m/s,Cal: '', Txt ''0'',
        Txt '', Distance: '', Conv ''%.1f'' (ADbl (Scaled 0 D_0_1)), Txt '' m   '',
        Txt ''0000'', Txt '' '', Txt ''FFFF'', Txt '' '', Txt ''0000'', Txt '' '', Txt ''00'',
        Txt NL, Txt NL])"
    using main_Legacy_header[of "0x07 # replicate 115 0" "0x20" "0x22 # ?G"] by (simp add: p l)
  show ?thesis
    unfolding s by (simp add: m m' l c del: append.simps)
qed

subsection \<open>The blank line of a GPS record\<close>

lemma switch_0x22_short:
  "length (rest f) < 27 \<Longrightarrow> switch v 0x22 f = Stop Fatal [Txt NL]"
  by (cases v) (simp_all add: switch_def switch_legacy_def switch_current_def sizeof_defs
      ReadStruct_None[THEN iffD2])

lemma switch_0x22_full:
  "27 \<le> length (rest f) \<Longrightarrow> \<exists>out f'. switch v 0x22 f = Continue (Txt NL # out) f'"
  by (cases v; cases "ReadStruct f 27")
     (auto simp add: switch_def switch_legacy_def switch_current_def sizeof_defs
      ReadStruct_None)

text \<open>
  C9: when the tag byte 0x22 is read, the empty line is written before the GPS payload
  is read. With fewer than 27 payload bytes left the program ends in \<open>Fatal\<close> and that
  empty line is all it has printed for the record; with a whole payload the output of
  the record starts with the empty line. Both programs do so.
\<close>

theorem gps_blank_line_before_read:
  assumes "\<not> eof f" and "rest f = 0x22 # p"
  shows "(length p < 27 \<longrightarrow> pump v f = (Fatal, [Txt NL]))
       \<and> (27 \<le> length p \<longrightarrow> take 1 (snd (pump v f)) = [Txt NL])"
proof (intro conjI impI)
  assume "length p < 27"
  then show "pump v f = (Fatal, [Txt NL])"
    using assms by (simp add: pump_Cons switch_0x22_short)
next
  assume "27 \<le> length p"
  then obtain out f' where
    "switch v 0x22 \<lparr>rest = p, pos = pos f + 1, eof = False\<rparr> = Continue (Txt NL # out) f'"
    using switch_0x22_full[of "\<lparr>rest = p, pos = pos f + 1, eof = False\<rparr>" v] by auto
  then show "take 1 (snd (pump v f)) = [Txt NL]"
    using assms by (simp add: pump_Cons)
qed

theorem gps_blank_line_before_read_witness:
  "pump Legacy (fopen [0x22, 1, 2]) = (Fatal, [Txt NL])
   \<and> pump Current (fopen [0x22, 1, 2]) = (Fatal, [Txt NL])
   \<and> take 1 (snd (pump Current (fopen (0x22 # replicate 27 0xFF)))) = [Txt NL]"
  using gps_blank_line_before_read[of "fopen [0x22, 1, 2]" "[1, 2]" Legacy]
    gps_blank_line_before_read[of "fopen [0x22, 1, 2]" "[1, 2]" Current]
    gps_blank_line_before_read[of "fopen (0x22 # replicate 27 0xFF)" "replicate 27 0xFF" Current]
  by (simp add: fopen_def)

end
